theory Spec2Isabelle
  imports Complex_Main
begin

section \<open>Python values shared by all modules\<close>

text \<open>
  Exceptions are values. \<open>IndexError\<close> is what Python raises for a list or string index
  out of range, \<open>ValueError\<close> carries the fixed part of the message of the raise site
  (the formatted move or index is dropped), and \<open>OracleError\<close> stands for any exception
  (a subclass of \<open>Exception\<close>) raised inside an external rules library.

  Strings are \<open>char list\<close>: the model covers Python strings whose code points are below 256.
\<close>

datatype py_error = IndexError | ValueError string | OracleError string

definition ebind :: "py_error + 'a \<Rightarrow> ('a \<Rightarrow> py_error + 'b) \<Rightarrow> py_error + 'b" where
  "ebind r f = (case r of Inl e \<Rightarrow> Inl e | Inr v \<Rightarrow> f v)"

text \<open>\<open>s[i]\<close> for a non-negative literal index \<open>i\<close>.\<close>

definition str_index :: "string \<Rightarrow> nat \<Rightarrow> py_error + char" where
  "str_index s i = (if i < length s then Inr (s ! i) else Inl IndexError)"

text \<open>\<open>ord(c)\<close> of a one-character string.\<close>

definition ord :: "char \<Rightarrow> int" where
  "ord c = int (of_char c)"

text \<open>
  \<open>int(c)\<close> of a one-character string: among the code points below 256 only the ASCII
  digits are accepted, everything else raises \<open>ValueError\<close>.
\<close>

definition is_ascii_digit :: "char \<Rightarrow> bool" where
  "is_ascii_digit c = (48 \<le> ord c \<and> ord c \<le> 57)"

definition int_of_char :: "char \<Rightarrow> py_error + int" where
  "int_of_char c =
     (if is_ascii_digit c then Inr (ord c - 48)
      else Inl (ValueError ''invalid literal for int()''))"

text \<open>\<open>str(n)\<close> of an integer: its decimal numeral, with a minus sign when negative.\<close>

definition digit_char :: "nat \<Rightarrow> char" where
  "digit_char d = char_of (48 + d)"

function str_nat :: "nat \<Rightarrow> string" where
  "str_nat n = (if n < 10 then [digit_char n] else str_nat (n div 10) @ [digit_char (n mod 10)])"
  by pat_completeness auto
termination
  by (relation "measure id") auto

definition str_int :: "int \<Rightarrow> string" where
  "str_int i = (if i < 0 then CHR ''-'' # str_nat (nat (- i)) else str_nat (nat i))"

text \<open>
  \<open>c.lower()\<close> of a one-character string, on the ASCII letters; no other code point below
  256 lowers to an ASCII letter.
\<close>

definition ascii_lower :: "char \<Rightarrow> char" where
  "ascii_lower c = (if 65 \<le> ord c \<and> ord c \<le> 90 then char_of (nat (ord c + 32)) else c)"


section \<open>game/move.py\<close>

record 'a Move =
  from_sq :: int
  to_sq :: int
  promotion :: "int option"
  metadata :: "(string \<times> 'a) list option"

definition square_to_index :: "char \<Rightarrow> char \<Rightarrow> py_error + int" where
  "square_to_index file rank =
     (let file_idx = ord file - ord CHR ''a'' in
      ebind (int_of_char rank) (\<lambda>r.
        let rank_idx = r - 1 in Inr (rank_idx * 8 + file_idx)))"

text \<open>\<open>promotion_map.get(uci_str[4].lower(), None)\<close> of \<open>from_uci\<close>.\<close>

definition promotion_of_char :: "char \<Rightarrow> int option" where
  "promotion_of_char c =
     (let l = ascii_lower c in
      if l = CHR ''q'' then Some 5
      else if l = CHR ''r'' then Some 4
      else if l = CHR ''b'' then Some 3
      else if l = CHR ''n'' then Some 2
      else None)"

definition from_uci :: "string \<Rightarrow> py_error + 'a Move" where
  "from_uci uci_str =
     ebind (str_index uci_str 0) (\<lambda>from_file.
     ebind (str_index uci_str 1) (\<lambda>from_rank.
     ebind (str_index uci_str 2) (\<lambda>to_file.
     ebind (str_index uci_str 3) (\<lambda>to_rank.
     ebind (square_to_index from_file from_rank) (\<lambda>f.
     ebind (square_to_index to_file to_rank) (\<lambda>t.
       Inr \<lparr>from_sq = f, to_sq = t,
            promotion = (if length uci_str = 5 then promotion_of_char (uci_str ! 4) else None),
            metadata = None\<rparr>))))))"

definition index_to_square :: "int \<Rightarrow> char \<times> string" where
  "index_to_square index =
     (let rank = index div 8 + 1;
          file = char_of (nat (ord CHR ''a'' + index mod 8))
      in (file, str_int rank))"

text \<open>\<open>promotion_map.get(self.promotion, '')\<close> of \<open>to_uci\<close>.\<close>

definition promotion_suffix :: "int \<Rightarrow> string" where
  "promotion_suffix p =
     (if p = 5 then ''q'' else if p = 4 then ''r'' else if p = 3 then ''b''
      else if p = 2 then ''n'' else [])"

text \<open>\<open>if self.promotion:\<close> is false for \<open>None\<close> and for \<open>0\<close>.\<close>

definition to_uci :: "'a Move \<Rightarrow> string" where
  "to_uci m =
     (case index_to_square (from_sq m) of (from_file, from_rank) \<Rightarrow>
      case index_to_square (to_sq m) of (to_file, to_rank) \<Rightarrow>
        let uci = from_file # from_rank @ to_file # to_rank in
        (case promotion m of
           None \<Rightarrow> uci
         | Some p \<Rightarrow> if p \<noteq> 0 then uci @ promotion_suffix p else uci))"


section \<open>Python lists, strings and numpy arrays\<close>

text \<open>\<open>xs[i]\<close> for an integer \<open>i\<close>: a negative index counts from the end.\<close>

definition list_index :: "'a list \<Rightarrow> int \<Rightarrow> py_error + 'a" where
  "list_index xs i =
     (let n = int (length xs) in
      if 0 \<le> i \<and> i < n then Inr (xs ! nat i)
      else if - n \<le> i \<and> i < 0 then Inr (xs ! nat (n + i))
      else Inl IndexError)"

text \<open>\<open>s.split(sep)\<close> for a one-character separator: every occurrence splits.\<close>

fun split_on :: "char \<Rightarrow> string \<Rightarrow> string list" where
  "split_on sep [] = [[]]"
| "split_on sep (c # cs) =
     (if c = sep then [] # split_on sep cs
      else (case split_on sep cs of
              [] \<Rightarrow> [[c]]
            | w # ws \<Rightarrow> (c # w) # ws))"

text \<open>
  A three-dimensional \<open>float32\<close> array as nested lists (planes, rows, columns). The arrays of
  this program only ever hold 0.0 and 1.0. \<open>tensor_set\<close> is \<open>a[p, r, c] = v\<close> for
  non-negative indices; numpy raises \<open>IndexError\<close> for an index beyond a dimension.
\<close>

type_synonym tensor = "real list list list"

definition np_zeros3 :: "nat \<Rightarrow> nat \<Rightarrow> nat \<Rightarrow> tensor" where
  "np_zeros3 planes rows cols = replicate planes (replicate rows (replicate cols 0))"

definition tensor_set :: "tensor \<Rightarrow> nat \<Rightarrow> nat \<Rightarrow> nat \<Rightarrow> real \<Rightarrow> py_error + tensor" where
  "tensor_set a p r c v =
     (if p < length a \<and> r < length (a ! p) \<and> c < length (a ! p ! r)
      then Inr (a[p := (a ! p)[r := (a ! p ! r)[c := v]]])
      else Inl IndexError)"

text \<open>\<open>a.sum()\<close>.\<close>

definition tensor_sum :: "tensor \<Rightarrow> real" where
  "tensor_sum a = sum_list (map (\<lambda>plane. sum_list (map sum_list plane)) a)"

text \<open>All entries of the array, for statements about every entry.\<close>

definition tensor_entries :: "tensor \<Rightarrow> real set" where
  "tensor_entries a = {v. \<exists>plane \<in> set a. \<exists>row \<in> set plane. v \<in> set row}"

text \<open>The index of a numpy dimension of size \<open>n\<close>: negative indices wrap once.\<close>

definition np_norm :: "nat \<Rightarrow> int \<Rightarrow> py_error + nat" where
  "np_norm n i =
     (if 0 \<le> i \<and> i < int n then Inr (nat i)
      else if - int n \<le> i \<and> i < 0 then Inr (nat (i + int n))
      else Inl IndexError)"


section \<open>The python-chess library, as a parameter\<close>

text \<open>
  \<open>ChessBoard\<close> wraps a \<open>chess.Board\<close> of the python-chess library, which is not part of
  the repository. The library is a parameter: positions \<open>'p\<close>, moves \<open>'m\<close> and the
  operations the wrapper calls. \<open>pc_legal_moves\<close> is \<open>list(board.legal_moves)\<close>.

  \<open>move in board.legal_moves\<close> is not membership in that list: it is the library's test
  \<open>board.is_legal(move)\<close>. The test holds of every move of the list, and it also holds of
  moves the list does not contain, which the library reads as another spelling of a listed
  move: castling written as king takes rook (e1h1, e1a1, e8h8, e8a8) where the list has
  e1g1, e1c1, e8g8, e8c8. \<open>pc_legal_unlisted\<close> is the test on the moves outside the list, and
  \<open>pc_contains\<close> is \<open>move in board.legal_moves\<close>.
\<close>

datatype chess_piece_type = PAWN | KNIGHT | BISHOP | ROOK | QUEEN | KING

record Outcome =
  oc_termination :: string
  oc_winner :: "bool option"

record ('p, 'm) python_chess =
  pc_start :: 'p
  pc_legal_moves :: "'p \<Rightarrow> 'm list"
  pc_legal_unlisted :: "'p \<Rightarrow> 'm \<Rightarrow> bool"
  pc_is_check :: "'p \<Rightarrow> bool"
  pc_turn :: "'p \<Rightarrow> bool"
  pc_push :: "'p \<Rightarrow> 'm \<Rightarrow> 'p"
  pc_is_game_over :: "'p \<Rightarrow> bool"
  pc_outcome :: "'p \<Rightarrow> Outcome option"
  pc_piece_at :: "'p \<Rightarrow> nat \<Rightarrow> (chess_piece_type \<times> bool) option"
  pc_fen :: "'p \<Rightarrow> string"


definition pc_contains :: "('p, 'm) python_chess \<Rightarrow> 'p \<Rightarrow> 'm \<Rightarrow> bool" where
  "pc_contains L p move = (move \<in> set (pc_legal_moves L p) \<or> pc_legal_unlisted L p move)"


section \<open>game/chess\_board.py\<close>

record ('p, 'm) ChessBoard =
  cb_board :: 'p
  cb_move_history :: "'m list"
  cb_result :: "Outcome option"

definition ChessBoard_reset :: "('p, 'm) python_chess \<Rightarrow> ('p, 'm) ChessBoard \<Rightarrow> ('p, 'm) ChessBoard" where
  "ChessBoard_reset L b = b\<lparr>cb_board := pc_start L, cb_move_history := [], cb_result := None\<rparr>"

definition ChessBoard_get_legal_moves ::
  "('p, 'm) python_chess \<Rightarrow> ('p, 'm) ChessBoard \<Rightarrow> bool option \<Rightarrow> 'm list" where
  "ChessBoard_get_legal_moves L b player =
     (if player \<noteq> None \<and> player \<noteq> Some (pc_turn L (cb_board b)) then []
      else pc_legal_moves L (cb_board b))"

text \<open>
  \<open>apply_move\<close> returns the exception or the pair \<open>(reward, done)\<close>, together with the board
  as the call leaves it.
\<close>

definition ChessBoard_apply_move ::
  "('p, 'm) python_chess \<Rightarrow> ('p, 'm) ChessBoard \<Rightarrow> 'm
     \<Rightarrow> (py_error + real \<times> bool) \<times> ('p, 'm) ChessBoard" where
  "ChessBoard_apply_move L b move =
     (if \<not> pc_contains L (cb_board b) move then (Inl (ValueError ''Illegal move''), b)
      else
        let is_check_before = pc_is_check L (cb_board b);
            player_before = pc_turn L (cb_board b);
            b1 = b\<lparr>cb_move_history := cb_move_history b @ [move]\<rparr>;
            b2 = b1\<lparr>cb_board := pc_push L (cb_board b1) move\<rparr>
        in
          if pc_is_game_over L (cb_board b2) then
            let result = pc_outcome L (cb_board b2);
                b3 = b2\<lparr>cb_result := result\<rparr>
            in (case result of
                  None \<Rightarrow> (Inr (0, True), b3)
                | Some r \<Rightarrow>
                    (case oc_winner r of
                       None \<Rightarrow> (Inr (0, True), b3)
                     | Some w \<Rightarrow> (Inr (if w = player_before then 1 else - 1, True), b3)))
          else (Inr (0, False), b2))"

definition ChessBoard_is_game_over :: "('p, 'm) python_chess \<Rightarrow> ('p, 'm) ChessBoard \<Rightarrow> bool" where
  "ChessBoard_is_game_over L b = pc_is_game_over L (cb_board b)"

text \<open>The twelve planes of \<open>PIECE_TO_PLANE\<close>.\<close>

fun PIECE_TO_PLANE :: "chess_piece_type \<times> bool \<Rightarrow> nat" where
  "PIECE_TO_PLANE (PAWN, True) = 0"
| "PIECE_TO_PLANE (KNIGHT, True) = 1"
| "PIECE_TO_PLANE (BISHOP, True) = 2"
| "PIECE_TO_PLANE (ROOK, True) = 3"
| "PIECE_TO_PLANE (QUEEN, True) = 4"
| "PIECE_TO_PLANE (KING, True) = 5"
| "PIECE_TO_PLANE (PAWN, False) = 6"
| "PIECE_TO_PLANE (KNIGHT, False) = 7"
| "PIECE_TO_PLANE (BISHOP, False) = 8"
| "PIECE_TO_PLANE (ROOK, False) = 9"
| "PIECE_TO_PLANE (QUEEN, False) = 10"
| "PIECE_TO_PLANE (KING, False) = 11"

text \<open>The body of the loop \<open>for square in chess.SQUARES\<close>, and the loop over a list of squares.\<close>

definition chess_observe_square ::
  "('p, 'm) python_chess \<Rightarrow> 'p \<Rightarrow> tensor \<Rightarrow> nat \<Rightarrow> py_error + tensor" where
  "chess_observe_square L p observation square =
     (case pc_piece_at L p square of
        None \<Rightarrow> Inr observation
      | Some piece \<Rightarrow>
          let row = 7 - square div 8; col = square mod 8;
              plane_idx = PIECE_TO_PLANE piece
          in tensor_set observation plane_idx row col 1)"

fun chess_observe_squares ::
  "('p, 'm) python_chess \<Rightarrow> 'p \<Rightarrow> tensor \<Rightarrow> nat list \<Rightarrow> py_error + tensor" where
  "chess_observe_squares L p observation [] = Inr observation"
| "chess_observe_squares L p observation (square # rest) =
     (case chess_observe_square L p observation square of
        Inl e \<Rightarrow> Inl e
      | Inr observation' \<Rightarrow> chess_observe_squares L p observation' rest)"

definition ChessBoard_to_observation ::
  "('p, 'm) python_chess \<Rightarrow> ('p, 'm) ChessBoard \<Rightarrow> py_error + tensor" where
  "ChessBoard_to_observation L b =
     chess_observe_squares L (cb_board b) (np_zeros3 12 8 8) [0..<64]"

definition ChessBoard_get_state_hash :: "('p, 'm) python_chess \<Rightarrow> ('p, 'm) ChessBoard \<Rightarrow> string" where
  "ChessBoard_get_state_hash L b = pc_fen L (cb_board b)"

text \<open>The result dictionary; \<open>None\<close> is the empty dictionary of a game that is not over.\<close>

record game_result =
  gr_winner :: "string option"
  gr_termination :: "string option"
  gr_moves :: "nat option"

definition ChessBoard_get_result ::
  "('p, 'm) python_chess \<Rightarrow> ('p, 'm) ChessBoard \<Rightarrow> game_result option" where
  "ChessBoard_get_result L b =
     (if \<not> ChessBoard_is_game_over L b then None
      else (case pc_outcome L (cb_board b) of
              None \<Rightarrow> Some \<lparr>gr_winner = None, gr_termination = Some ''UNKNOWN'',
                            gr_moves = Some (length (cb_move_history b))\<rparr>
            | Some r \<Rightarrow>
                Some \<lparr>gr_winner = (case oc_winner r of None \<Rightarrow> None
                                     | Some w \<Rightarrow> Some (if w then ''white'' else ''black'')),
                      gr_termination = Some (oc_termination r),
                      gr_moves = Some (length (cb_move_history b))\<rparr>))"


section \<open>environments/chess\_env.py\<close>

text \<open>
  \<open>step\<close> returns \<open>(observation, reward, terminated, truncated, info)\<close>. The observation and
  the info dictionary are read from the board after the move by calls that do not change
  it; the model keeps the reward and the two flags, and the environment as the call leaves it.
\<close>

record ('p, 'm) ChessEnv =
  ce_board :: "('p, 'm) ChessBoard"
  ce_max_steps :: int
  ce_steps :: int
  ce_current_player :: bool
  ce_rng :: "int option"

definition ChessEnv_reset ::
  "('p, 'm) python_chess \<Rightarrow> ('p, 'm) ChessEnv \<Rightarrow> int option \<Rightarrow> ('p, 'm) ChessEnv" where
  "ChessEnv_reset L env seed =
     (let env1 = (case seed of None \<Rightarrow> env | Some s \<Rightarrow> env\<lparr>ce_rng := Some s\<rparr>)
      in env1\<lparr>ce_board := ChessBoard_reset L (ce_board env1), ce_steps := 0,
              ce_current_player := True\<rparr>)"

definition ChessEnv_step ::
  "('p, 'm) python_chess \<Rightarrow> ('p, 'm) ChessEnv \<Rightarrow> int
     \<Rightarrow> (py_error + real \<times> bool \<times> bool) \<times> ('p, 'm) ChessEnv" where
  "ChessEnv_step L env action =
     (let legal_moves = ChessBoard_get_legal_moves L (ce_board env) None in
      if action \<ge> int (length legal_moves) then (Inl (ValueError ''Invalid action index''), env)
      else (case list_index legal_moves action of
              Inl e \<Rightarrow> (Inl e, env)
            | Inr move \<Rightarrow>
                (case ChessBoard_apply_move L (ce_board env) move of
                   (Inl e, b') \<Rightarrow> (Inl e, env\<lparr>ce_board := b'\<rparr>)
                 | (Inr (reward, game_over), b') \<Rightarrow>
                     let env1 = env\<lparr>ce_board := b', ce_steps := ce_steps env + 1,
                                    ce_current_player := \<not> ce_current_player env\<rparr>;
                         terminated = game_over;
                         truncated = (ce_steps env1 \<ge> ce_max_steps env1)
                     in (Inr (reward, terminated, truncated), env1))))"


section \<open>game/xiangqi\_board.py\<close>

definition GENERAL :: int where "GENERAL = 1"
definition ADVISOR :: int where "ADVISOR = 2"
definition ELEPHANT :: int where "ELEPHANT = 3"
definition HORSE :: int where "HORSE = 4"
definition CHARIOT :: int where "CHARIOT = 5"
definition CANNON :: int where "CANNON = 6"
definition SOLDIER :: int where "SOLDIER = 7"

record XiangqiMove =
  from_pos :: "int \<times> int"
  to_pos :: "int \<times> int"
  piece_type :: int
  piece_color :: bool

text \<open>
  The \<open>int8\<close> grid of 10 rows and 9 columns as nested lists; every value the program
  stores lies between -7 and 7. \<open>grid_put\<close> is \<open>board[r, c] = v\<close> for the literal indices of
  the set-up, \<open>grid_get\<close> and \<open>grid_set\<close> are the reads and writes of \<open>apply_move\<close> at the
  integer coordinates of a move.
\<close>

type_synonym grid = "int list list"

definition grid_put :: "grid \<Rightarrow> nat \<Rightarrow> nat \<Rightarrow> int \<Rightarrow> grid" where
  "grid_put g r c v = g[r := (g ! r)[c := v]]"

definition grid_get :: "grid \<Rightarrow> int \<Rightarrow> int \<Rightarrow> py_error + int" where
  "grid_get g r c =
     ebind (np_norm (length g) r) (\<lambda>i.
     ebind (np_norm (length (g ! i)) c) (\<lambda>j. Inr (g ! i ! j)))"

definition grid_set :: "grid \<Rightarrow> int \<Rightarrow> int \<Rightarrow> int \<Rightarrow> py_error + grid" where
  "grid_set g r c v =
     ebind (np_norm (length g) r) (\<lambda>i.
     ebind (np_norm (length (g ! i)) c) (\<lambda>j. Inr (grid_put g i j v)))"

record XiangqiBoard =
  xb_board :: grid
  xb_move_history :: "XiangqiMove list"
  xb_current_player :: bool
  xb_result :: "game_result option"
  xb_halfmove_clock :: int

definition setup_initial_position :: "grid \<Rightarrow> grid" where
  "setup_initial_position g =
     foldl (\<lambda>g (r, c, v). grid_put g r c v) g
       [(0, 0, CHARIOT), (0, 1, HORSE), (0, 2, ELEPHANT), (0, 3, ADVISOR), (0, 4, GENERAL),
        (0, 5, ADVISOR), (0, 6, ELEPHANT), (0, 7, HORSE), (0, 8, CHARIOT),
        (2, 1, CANNON), (2, 7, CANNON),
        (3, 0, SOLDIER), (3, 2, SOLDIER), (3, 4, SOLDIER), (3, 6, SOLDIER), (3, 8, SOLDIER),
        (9, 0, - CHARIOT), (9, 1, - HORSE), (9, 2, - ELEPHANT), (9, 3, - ADVISOR),
        (9, 4, - GENERAL), (9, 5, - ADVISOR), (9, 6, - ELEPHANT), (9, 7, - HORSE),
        (9, 8, - CHARIOT),
        (7, 1, - CANNON), (7, 7, - CANNON),
        (6, 0, - SOLDIER), (6, 2, - SOLDIER), (6, 4, - SOLDIER), (6, 6, - SOLDIER),
        (6, 8, - SOLDIER)]"

definition XiangqiBoard_reset :: "XiangqiBoard \<Rightarrow> XiangqiBoard" where
  "XiangqiBoard_reset b =
     b\<lparr>xb_board := setup_initial_position (replicate 10 (replicate 9 0)),
       xb_move_history := [], xb_current_player := True, xb_result := None,
       xb_halfmove_clock := 0\<rparr>"

text \<open>The constructor builds the same state as \<open>reset\<close>.\<close>

definition XiangqiBoard_init :: XiangqiBoard where
  "XiangqiBoard_init =
     \<lparr>xb_board = setup_initial_position (replicate 10 (replicate 9 0)),
      xb_move_history = [], xb_current_player = True, xb_result = None,
      xb_halfmove_clock = 0\<rparr>"

text \<open>Both branches of the source return the empty list: the generator is a placeholder.\<close>

definition XiangqiBoard_get_legal_moves :: "XiangqiBoard \<Rightarrow> bool option \<Rightarrow> XiangqiMove list" where
  "XiangqiBoard_get_legal_moves b player =
     (let player_to_move = (case player of None \<Rightarrow> xb_current_player b | Some p \<Rightarrow> p) in
      if player \<noteq> None \<and> player \<noteq> Some (xb_current_player b) then []
      else (let legal_moves = [] in legal_moves))"

text \<open>
  \<open>apply_move\<close> in two parts: the statements after the legality test (reading the
  coordinates, moving the piece, recording the move, passing the turn), and the whole
  method, which runs them when the test lets the move through.
\<close>

definition XiangqiBoard_apply_move_body ::
  "XiangqiBoard \<Rightarrow> XiangqiMove \<Rightarrow> (py_error + real \<times> bool) \<times> XiangqiBoard" where
  "XiangqiBoard_apply_move_body b move =
     (case (from_pos move, to_pos move) of ((from_row, from_col), (to_row, to_col)) \<Rightarrow>
        (case grid_get (xb_board b) from_row from_col of
           Inl e \<Rightarrow> (Inl e, b)
         | Inr piece \<Rightarrow>
        (case grid_get (xb_board b) to_row to_col of
           Inl e \<Rightarrow> (Inl e, b)
         | Inr captured_piece \<Rightarrow>
        (case grid_set (xb_board b) to_row to_col piece of
           Inl e \<Rightarrow> (Inl e, b)
         | Inr g1 \<Rightarrow>
        (case grid_set g1 from_row from_col 0 of
           Inl e \<Rightarrow> (Inl e, b\<lparr>xb_board := g1\<rparr>)
         | Inr g2 \<Rightarrow>
             (Inr (0, False),
              b\<lparr>xb_board := g2, xb_move_history := xb_move_history b @ [move],
                xb_current_player := \<not> xb_current_player b\<rparr>))))))"

definition XiangqiBoard_apply_move ::
  "XiangqiBoard \<Rightarrow> XiangqiMove \<Rightarrow> (py_error + real \<times> bool) \<times> XiangqiBoard" where
  "XiangqiBoard_apply_move b move =
     (let player_before = xb_current_player b in
      if move \<notin> set (XiangqiBoard_get_legal_moves b None)
      then (Inl (ValueError ''Illegal move''), b)
      else XiangqiBoard_apply_move_body b move)"

definition XiangqiBoard_is_game_over :: "XiangqiBoard \<Rightarrow> bool" where
  "XiangqiBoard_is_game_over b = False"

text \<open>The body of the double loop of \<open>to_observation\<close> at one cell, and the loop over cells.\<close>

definition xiangqi_observe_cell :: "grid \<Rightarrow> tensor \<Rightarrow> nat \<times> nat \<Rightarrow> py_error + tensor" where
  "xiangqi_observe_cell g observation rc =
     (case rc of (r, c) \<Rightarrow>
      let piece = g ! r ! c in
      if piece \<noteq> 0 then
        let piece_type = \<bar>piece\<bar>; color = (piece > 0);
            plane_idx = (if color then piece_type - 1 else piece_type + 6)
        in ebind (np_norm (length observation) plane_idx) (\<lambda>p. tensor_set observation p r c 1)
      else Inr observation)"

fun xiangqi_observe_cells :: "grid \<Rightarrow> tensor \<Rightarrow> (nat \<times> nat) list \<Rightarrow> py_error + tensor" where
  "xiangqi_observe_cells g observation [] = Inr observation"
| "xiangqi_observe_cells g observation (rc # rest) =
     (case xiangqi_observe_cell g observation rc of
        Inl e \<Rightarrow> Inl e
      | Inr observation' \<Rightarrow> xiangqi_observe_cells g observation' rest)"

definition XiangqiBoard_to_observation :: "XiangqiBoard \<Rightarrow> py_error + tensor" where
  "XiangqiBoard_to_observation b =
     xiangqi_observe_cells (xb_board b) (np_zeros3 14 10 9)
       (concat (map (\<lambda>r. map (\<lambda>c. (r, c)) [0..<9]) [0..<10]))"

definition XiangqiBoard_get_result :: "XiangqiBoard \<Rightarrow> game_result option" where
  "XiangqiBoard_get_result b =
     (if \<not> XiangqiBoard_is_game_over b then None
      else Some \<lparr>gr_winner = None, gr_termination = Some ''UNKNOWN'',
                 gr_moves = Some (length (xb_move_history b))\<rparr>)"


section \<open>environments/xiangqi\_env.py\<close>

record XiangqiEnv =
  xe_board :: XiangqiBoard
  xe_max_steps :: int
  xe_steps :: int
  xe_current_player :: bool
  xe_rng :: "int option"

definition XiangqiEnv_init :: "int \<Rightarrow> XiangqiEnv" where
  "XiangqiEnv_init max_steps =
     \<lparr>xe_board = XiangqiBoard_init, xe_max_steps = max_steps, xe_steps = 0,
      xe_current_player = True, xe_rng = None\<rparr>"

definition XiangqiEnv_reset :: "XiangqiEnv \<Rightarrow> int option \<Rightarrow> XiangqiEnv" where
  "XiangqiEnv_reset env seed =
     (let env1 = (case seed of None \<Rightarrow> env | Some s \<Rightarrow> env\<lparr>xe_rng := Some s\<rparr>)
      in env1\<lparr>xe_board := XiangqiBoard_reset (xe_board env1), xe_steps := 0,
              xe_current_player := True\<rparr>)"

definition XiangqiEnv_step ::
  "XiangqiEnv \<Rightarrow> int \<Rightarrow> (py_error + real \<times> bool \<times> bool) \<times> XiangqiEnv" where
  "XiangqiEnv_step env action =
     (let legal_moves = XiangqiBoard_get_legal_moves (xe_board env) None in
      if action \<ge> int (length legal_moves) then (Inl (ValueError ''Invalid action index''), env)
      else (case list_index legal_moves action of
              Inl e \<Rightarrow> (Inl e, env)
            | Inr move \<Rightarrow>
                (case XiangqiBoard_apply_move (xe_board env) move of
                   (Inl e, b') \<Rightarrow> (Inl e, env\<lparr>xe_board := b'\<rparr>)
                 | (Inr (reward, game_over), b') \<Rightarrow>
                     let env1 = env\<lparr>xe_board := b', xe_steps := xe_steps env + 1,
                                    xe_current_player := \<not> xe_current_player env\<rparr>;
                         terminated = game_over;
                         truncated = (xe_steps env1 \<ge> xe_max_steps env1)
                     in (Inr (reward, terminated, truncated), env1))))"


section \<open>The pyffish rules oracle, as a parameter\<close>

text \<open>
  The Xiangqi boards of \<open>xiangqi_pyffish_board.py\<close> and \<open>simple_xiangqi_board.py\<close> call the
  external module \<open>pyffish\<close>. It is a parameter: \<open>sf_start_fen v\<close> is \<open>sf.start_fen(v)\<close>,
  \<open>sf_legal_moves3 v fen\<close> is \<open>sf.legal_moves(v, fen, [])\<close>, \<open>sf_legal_moves2 v fen\<close> is the
  two-argument call \<open>sf.legal_moves(v, fen)\<close>, and \<open>sf_get_fen v fen ms\<close> is
  \<open>sf.get_fen(v, fen, ms)\<close>. Each call may raise.
\<close>

record pyffish =
  sf_start_fen :: "string \<Rightarrow> string"
  sf_legal_moves3 :: "string \<Rightarrow> string \<Rightarrow> py_error + string list"
  sf_legal_moves2 :: "string \<Rightarrow> string \<Rightarrow> py_error + string list"
  sf_get_fen :: "string \<Rightarrow> string \<Rightarrow> string list \<Rightarrow> py_error + string"

text \<open>
  The pattern \<open>try: sf.legal_moves(v, fen, []) except: sf.legal_moves(v, fen)\<close>, which
  \<open>xiangqi_pyffish_board.py\<close> writes out three times.
\<close>

definition legal_moves_with_fallback :: "pyffish \<Rightarrow> string \<Rightarrow> string \<Rightarrow> py_error + string list" where
  "legal_moves_with_fallback sf v fen =
     (case sf_legal_moves3 sf v fen of
        Inr ms \<Rightarrow> Inr ms
      | Inl e \<Rightarrow> sf_legal_moves2 sf v fen)"

text \<open>\<open>fen.split(' ')[1]\<close>, the side-to-move field, and \<open>fen.split(' ')[0]\<close>.\<close>

definition fen_side_field :: "string \<Rightarrow> py_error + string" where
  "fen_side_field fen = list_index (split_on CHR '' '' fen) 1"

definition fen_board_part :: "string \<Rightarrow> string" where
  "fen_board_part fen = (case split_on CHR '' '' fen of [] \<Rightarrow> [] | w # ws \<Rightarrow> w)"


section \<open>game/xiangqi\_pyffish\_board.py\<close>

datatype XiangqiPyffishMove = XiangqiPyffishMove (move_str: string)

record XiangqiPyffishBoard =
  pb_variant :: string
  pb_current_fen :: string
  pb_move_history :: "string list"
  pb_result :: "game_result option"

definition XiangqiPyffishBoard_init :: "pyffish \<Rightarrow> string option \<Rightarrow> XiangqiPyffishBoard" where
  "XiangqiPyffishBoard_init sf fen =
     \<lparr>pb_variant = ''xiangqi'',
      pb_current_fen = (case fen of None \<Rightarrow> sf_start_fen sf ''xiangqi''
                        | Some f \<Rightarrow> if f = [] then sf_start_fen sf ''xiangqi'' else f),
      pb_move_history = [], pb_result = None\<rparr>"


definition XiangqiPyffishBoard_get_legal_moves ::
  "pyffish \<Rightarrow> XiangqiPyffishBoard \<Rightarrow> bool option \<Rightarrow> py_error + XiangqiPyffishMove list" where
  "XiangqiPyffishBoard_get_legal_moves sf b player =
     ebind (fen_side_field (pb_current_fen b)) (\<lambda>current_player_char.
       let current_player = (current_player_char = ''w'') in
       if player \<noteq> None \<and> player \<noteq> Some current_player then Inr []
       else ebind (legal_moves_with_fallback sf (pb_variant b) (pb_current_fen b))
              (\<lambda>move_strs. Inr (map XiangqiPyffishMove move_strs)))"

definition XiangqiPyffishBoard_apply_move ::
  "pyffish \<Rightarrow> XiangqiPyffishBoard \<Rightarrow> XiangqiPyffishMove
     \<Rightarrow> (py_error + real \<times> bool) \<times> XiangqiPyffishBoard" where
  "XiangqiPyffishBoard_apply_move sf b move =
     (case legal_moves_with_fallback sf (pb_variant b) (pb_current_fen b) of
        Inl e \<Rightarrow> (Inl e, b)
      | Inr legal_moves \<Rightarrow>
          if move_str move \<notin> set legal_moves then (Inl (ValueError ''Illegal move''), b)
          else
            let b1 = b\<lparr>pb_move_history := pb_move_history b @ [move_str move]\<rparr> in
            (case sf_get_fen sf (pb_variant b1) (pb_current_fen b1) [move_str move] of
               Inl e \<Rightarrow>
                 (Inl (ValueError ''Error applying move''),
                  b1\<lparr>pb_move_history := butlast (pb_move_history b1)\<rparr>)
             | Inr fen' \<Rightarrow>
                 let b2 = b1\<lparr>pb_current_fen := fen'\<rparr> in
                 (case legal_moves_with_fallback sf (pb_variant b2) (pb_current_fen b2) of
                    Inl e \<Rightarrow> (Inr (0, False), b2)
                  | Inr next_legal_moves \<Rightarrow>
                      let done = (length next_legal_moves = 0) in
                      if done then
                        (case fen_side_field (pb_current_fen b2) of
                           Inl e \<Rightarrow> (Inr (0, done), b2)
                         | Inr current_player_char \<Rightarrow>
                             let prev_player = (current_player_char \<noteq> ''w'');
                                 reward = (if prev_player then 1 else - 1)
                             in (Inr (reward, done),
                                 b2\<lparr>pb_result := Some
                                      \<lparr>gr_winner = Some (if prev_player then ''red'' else ''black''),
                                       gr_termination = Some ''checkmate'',
                                       gr_moves = None\<rparr>\<rparr>))
                      else (Inr (0, done), b2))))"

definition XiangqiPyffishBoard_is_game_over :: "pyffish \<Rightarrow> XiangqiPyffishBoard \<Rightarrow> bool" where
  "XiangqiPyffishBoard_is_game_over sf b =
     (case sf_legal_moves3 sf (pb_variant b) (pb_current_fen b) of
        Inr legal_moves \<Rightarrow> length legal_moves = 0
      | Inl e \<Rightarrow> False)"

definition XiangqiPyffishBoard_get_state_hash :: "XiangqiPyffishBoard \<Rightarrow> string" where
  "XiangqiPyffishBoard_get_state_hash b = pb_current_fen b"

text \<open>\<open>get_result\<close> returns the dictionary and may store it in \<open>self.result\<close>.\<close>

definition XiangqiPyffishBoard_get_result ::
  "pyffish \<Rightarrow> XiangqiPyffishBoard \<Rightarrow> game_result \<times> XiangqiPyffishBoard" where
  "XiangqiPyffishBoard_get_result sf b =
     (if \<not> XiangqiPyffishBoard_is_game_over sf b
      then (\<lparr>gr_winner = None, gr_termination = None, gr_moves = None\<rparr>, b)
      else (case pb_result b of
              Some r \<Rightarrow> (r, b)
            | None \<Rightarrow>
                let r = (case fen_side_field (pb_current_fen b) of
                           Inr current_player_char \<Rightarrow>
                             let current_player = (current_player_char = ''w'') in
                             \<lparr>gr_winner = Some (if current_player then ''black'' else ''red''),
                              gr_termination = Some ''checkmate'', gr_moves = None\<rparr>
                         | Inl e \<Rightarrow>
                             \<lparr>gr_winner = Some ''draw'', gr_termination = Some ''unknown'',
                              gr_moves = None\<rparr>)
                in (r, b\<lparr>pb_result := Some r\<rparr>)))"


text \<open>
  \<open>PIECE_MAPPING\<close>: the FEN letter of a piece, its kind (0..6) and whether it is red.
\<close>

definition PIECE_MAPPING :: "char \<Rightarrow> (nat \<times> bool) option" where
  "PIECE_MAPPING =
     map_of [(CHR ''P'', (0, True)), (CHR ''N'', (1, True)), (CHR ''B'', (2, True)),
             (CHR ''A'', (3, True)), (CHR ''R'', (4, True)), (CHR ''C'', (5, True)),
             (CHR ''K'', (6, True)),
             (CHR ''p'', (0, False)), (CHR ''n'', (1, False)), (CHR ''b'', (2, False)),
             (CHR ''a'', (3, False)), (CHR ''r'', (4, False)), (CHR ''c'', (5, False)),
             (CHR ''k'', (6, False))]"

text \<open>
  \<open>char.isdigit()\<close> of a one-character string: among the code points below 256 it holds of
  the ASCII digits and of the superscripts two, three and one (178, 179, 185), for which
  \<open>int(char)\<close> then raises.
\<close>

definition py_isdigit :: "char \<Rightarrow> bool" where
  "py_isdigit c = (is_ascii_digit c \<or> ord c = 178 \<or> ord c = 179 \<or> ord c = 185)"

text \<open>
  The inner loop \<open>for char in rank\<close> of \<open>to_observation\<close>, from the current \<open>file_idx\<close>, and
  the outer loop \<open>for rank_idx, rank in enumerate(ranks)\<close>. \<open>black_offset\<close> is what the
  source adds to the kind of a black piece: \<open>NUM_PIECE_TYPES\<close> in
  \<open>XiangqiPyffishBoard.to_observation\<close>, \<open>NUM_PIECE_TYPES // 2\<close> in
  \<open>SimpleXiangqiBoard.get_observation\<close>.
\<close>

fun observe_rank :: "nat \<Rightarrow> nat \<Rightarrow> tensor \<Rightarrow> nat \<Rightarrow> string \<Rightarrow> py_error + tensor" where
  "observe_rank black_offset rank_idx observation file_idx [] = Inr observation"
| "observe_rank black_offset rank_idx observation file_idx (ch # rest) =
     (if py_isdigit ch then
        (case int_of_char ch of
           Inl e \<Rightarrow> Inl e
         | Inr d \<Rightarrow> observe_rank black_offset rank_idx observation (file_idx + nat d) rest)
      else
        (case PIECE_MAPPING ch of
           None \<Rightarrow> observe_rank black_offset rank_idx observation (file_idx + 1) rest
         | Some (kind, is_red) \<Rightarrow>
             let plane_idx = (if is_red then kind else kind + black_offset) in
             (case tensor_set observation plane_idx rank_idx file_idx 1 of
                Inl e \<Rightarrow> Inl e
              | Inr observation' \<Rightarrow>
                  observe_rank black_offset rank_idx observation' (file_idx + 1) rest)))"

fun observe_ranks :: "nat \<Rightarrow> tensor \<Rightarrow> nat \<Rightarrow> string list \<Rightarrow> py_error + tensor" where
  "observe_ranks black_offset observation rank_idx [] = Inr observation"
| "observe_ranks black_offset observation rank_idx (rank # rest) =
     (case observe_rank black_offset rank_idx observation 0 rank of
        Inl e \<Rightarrow> Inl e
      | Inr observation' \<Rightarrow> observe_ranks black_offset observation' (rank_idx + 1) rest)"

definition XiangqiPyffishBoard_to_observation :: "XiangqiPyffishBoard \<Rightarrow> py_error + tensor" where
  "XiangqiPyffishBoard_to_observation b =
     (let board_part = fen_board_part (pb_current_fen b);
          ranks = split_on CHR ''/'' board_part
      in observe_ranks 7 (np_zeros3 14 10 9) 0 ranks)"

text \<open>
  The number of pieces on the board of a FEN: the piece letters of its placement field.
\<close>

definition is_piece_char :: "char \<Rightarrow> bool" where
  "is_piece_char ch = (\<not> py_isdigit ch \<and> PIECE_MAPPING ch \<noteq> None)"

definition fen_piece_count :: "string \<Rightarrow> nat" where
  "fen_piece_count fen = length (filter is_piece_char (fen_board_part fen))"


section \<open>game/simple\_xiangqi\_board.py\<close>

record SimpleXiangqiBoard =
  sb_variant :: string
  sb_current_fen :: string
  sb_move_history :: "string list"
  sb_result :: "game_result option"


definition SimpleXiangqiBoard_get_legal_moves :: "pyffish \<Rightarrow> SimpleXiangqiBoard \<Rightarrow> string list" where
  "SimpleXiangqiBoard_get_legal_moves sf b =
     (case sf_legal_moves3 sf (sb_variant b) (sb_current_fen b) of
        Inr ms \<Rightarrow> ms
      | Inl e \<Rightarrow> [])"

definition SimpleXiangqiBoard_make_move ::
  "pyffish \<Rightarrow> SimpleXiangqiBoard \<Rightarrow> string \<Rightarrow> (py_error + real \<times> bool) \<times> SimpleXiangqiBoard" where
  "SimpleXiangqiBoard_make_move sf b move_str' =
     (let legal_moves = SimpleXiangqiBoard_get_legal_moves sf b in
      if move_str' \<notin> set legal_moves then (Inl (ValueError ''Illegal move''), b)
      else
        let b1 = b\<lparr>sb_move_history := sb_move_history b @ [move_str']\<rparr> in
        (case sf_get_fen sf (sb_variant b1) (sb_current_fen b1) [move_str'] of
           Inl e \<Rightarrow>
             (Inl (ValueError ''Error making move''),
              b1\<lparr>sb_move_history := butlast (sb_move_history b1)\<rparr>)
         | Inr fen' \<Rightarrow>
             let b2 = b1\<lparr>sb_current_fen := fen'\<rparr>;
                 is_done = (case sf_legal_moves3 sf (sb_variant b2) (sb_current_fen b2) of
                              Inr opponent_moves \<Rightarrow> length opponent_moves = 0
                            | Inl e \<Rightarrow> False);
                 reward = (if is_done then 1 else 0)
             in (Inr (reward, is_done), b2)))"

definition SimpleXiangqiBoard_is_game_over :: "pyffish \<Rightarrow> SimpleXiangqiBoard \<Rightarrow> bool" where
  "SimpleXiangqiBoard_is_game_over sf b =
     (case sf_legal_moves3 sf (sb_variant b) (sb_current_fen b) of
        Inr ms \<Rightarrow> length ms = 0
      | Inl e \<Rightarrow> False)"

definition SimpleXiangqiBoard_get_observation :: "SimpleXiangqiBoard \<Rightarrow> py_error + tensor" where
  "SimpleXiangqiBoard_get_observation b =
     (let board_part = fen_board_part (sb_current_fen b);
          ranks = split_on CHR ''/'' board_part
      in observe_ranks (7 div 2) (np_zeros3 14 10 9) 0 ranks)"

text \<open>
  \<open>get_result\<close> reads the side field of the FEN once the game is over, which raises
  \<open>IndexError\<close> on a FEN without a second field.
\<close>

definition SimpleXiangqiBoard_get_result ::
  "pyffish \<Rightarrow> SimpleXiangqiBoard \<Rightarrow> py_error + game_result" where
  "SimpleXiangqiBoard_get_result sf b =
     (if \<not> SimpleXiangqiBoard_is_game_over sf b
      then Inr \<lparr>gr_winner = None, gr_termination = None, gr_moves = None\<rparr>
      else ebind (fen_side_field (sb_current_fen b)) (\<lambda>side.
             let current_player = (side = ''w'') in
             Inr \<lparr>gr_winner = Some (if current_player then ''black'' else ''red''),
                  gr_termination = Some ''checkmate'', gr_moves = None\<rparr>))"

definition SimpleXiangqiBoard_get_state_hash :: "SimpleXiangqiBoard \<Rightarrow> string" where
  "SimpleXiangqiBoard_get_state_hash b = sb_current_fen b"


section \<open>Shapes and piece counts\<close>

text \<open>An array of the given numbers of planes, rows and columns.\<close>

definition tensor_dims :: "tensor \<Rightarrow> nat \<Rightarrow> nat \<Rightarrow> nat \<Rightarrow> bool" where
  "tensor_dims a P R C =
     (length a = P \<and> (\<forall>p < P. length (a ! p) = R \<and> (\<forall>r < R. length (a ! p ! r) = C)))"

text \<open>
  A FEN whose placement field fits the board of 10 ranks and 9 files: at most 10 ranks
  between the slashes, every digit an ASCII digit, and no rank wider than 9 files, where a
  digit counts for its value and any other character for one file.
\<close>

fun rank_width :: "string \<Rightarrow> nat" where
  "rank_width [] = 0"
| "rank_width (ch # rest) =
     (if is_ascii_digit ch then nat (ord ch - 48) else 1) + rank_width rest"

definition fen_fits_board :: "string \<Rightarrow> bool" where
  "fen_fits_board fen =
     (let ranks = split_on CHR ''/'' (fen_board_part fen) in
      length ranks \<le> 10 \<and>
      (\<forall>rank \<in> set ranks.
         (\<forall>ch \<in> set rank. py_isdigit ch \<longrightarrow> is_ascii_digit ch) \<and> rank_width rank \<le> 9))"

text \<open>The number of pieces of a chess position: the squares on which \<open>piece_at\<close> finds one.\<close>

definition chess_piece_count :: "('p, 'm) python_chess \<Rightarrow> 'p \<Rightarrow> nat" where
  "chess_piece_count L p = length (filter (\<lambda>sq. pc_piece_at L p sq \<noteq> None) [0..<64])"

text \<open>
  A grid of the native Xiangqi board as the program builds it: 10 rows of 9 cells holding a
  piece code between -7 and 7; and the number of its pieces, the cells that are not 0.
\<close>

definition grid_ok :: "grid \<Rightarrow> bool" where
  "grid_ok g =
     (length g = 10 \<and> (\<forall>row \<in> set g. length row = 9 \<and> (\<forall>v \<in> set row. - 7 \<le> v \<and> v \<le> 7)))"

definition grid_piece_count :: "grid \<Rightarrow> nat" where
  "grid_piece_count g = length (filter (\<lambda>v. v \<noteq> 0) (concat g))"

text \<open>The cells \<open>(r, c)\<close> in the order of the double loop of \<open>XiangqiBoard.to_observation\<close>.\<close>

definition all_cells :: "(nat \<times> nat) list" where
  "all_cells = concat (map (\<lambda>r. map (\<lambda>c. (r, c)) [0..<9]) [0..<10])"


section \<open>Sequences of moves\<close>








section \<open>Small libraries for concrete runs\<close>

text \<open>
  A rules oracle that answers for four positions: the Xiangqi starting position and the
  position after the pawn move e4e5, a position in which the black chariot mates a bare red
  king with b3b1, and the position after that move, in which Red has no legal move. It
  also plays e7e6 after e4e5, but for the position reached, as for every other position,
  each of its calls raises; so does the two-argument form of \<open>legal_moves\<close>.
\<close>

definition fen_start :: string where
  "fen_start = ''rnbakabnr/9/1c5c1/p1p1p1p1p/9/9/P1P1P1P1P/1C5C1/9/RNBAKABNR w - - 0 1''"

definition fen_after_e4e5 :: string where
  "fen_after_e4e5 = ''rnbakabnr/9/1c5c1/p1p1p1p1p/9/4P4/P1P3P1P/1C5C1/9/RNBAKABNR b - - 1 1''"

definition fen_after_e7e6 :: string where
  "fen_after_e7e6 = ''rnbakabnr/9/1c5c1/p1p3p1p/4p4/4P4/P1P3P1P/1C5C1/9/RNBAKABNR w - - 2 2''"

definition fen_bare_kings :: string where
  "fen_bare_kings = ''4k4/9/9/9/9/9/9/9/9/3K5 w - - 0 1''"

definition fen_black_mates :: string where
  "fen_black_mates = ''3k5/9/9/9/9/9/9/1r7/r8/4K4 b - - 0 1''"

definition fen_red_mated :: string where
  "fen_red_mated = ''3k5/9/9/9/9/9/9/9/r8/1r2K4 w - - 1 2''"

definition stub_sf :: pyffish where
  "stub_sf =
     \<lparr>sf_start_fen = (\<lambda>v. fen_start),
      sf_legal_moves3 = (\<lambda>v fen.
         if fen = fen_start then Inr [''h3h10'', ''e4e5'']
         else if fen = fen_after_e4e5 then Inr [''e7e6'']
         else if fen = fen_black_mates then Inr [''b3b1'', ''a2a1'']
         else if fen = fen_red_mated then Inr []
         else Inl (OracleError ''unknown position'')),
      sf_legal_moves2 = (\<lambda>v fen. Inl (OracleError ''legal_moves takes three arguments'')),
      sf_get_fen = (\<lambda>v fen ms.
         if fen = fen_start \<and> ms = [''e4e5''] then Inr fen_after_e4e5
         else if fen = fen_after_e4e5 \<and> ms = [''e7e6''] then Inr fen_after_e7e6
         else if fen = fen_black_mates \<and> ms = [''b3b1''] then Inr fen_red_mated
         else Inl (OracleError ''unknown position''))\<rparr>"

text \<open>
  An older oracle whose \<open>legal_moves\<close> takes two arguments: the three-argument call raises,
  and the two-argument call answers as \<open>stub_sf\<close> does.
\<close>

definition two_arg_sf :: pyffish where
  "two_arg_sf =
     stub_sf\<lparr>sf_legal_moves3 := (\<lambda>v fen. Inl (OracleError ''legal_moves takes two arguments'')),
             sf_legal_moves2 := sf_legal_moves3 stub_sf\<rparr>"

text \<open>
  A chess library whose positions are the number of plies played: two moves are legal until
  three plies have been played, then the game is over and the side that moved last has won.
  Its legality test accepts the moves of its list only.
\<close>

definition stub_chess :: "(nat, string) python_chess" where
  "stub_chess =
     \<lparr>pc_start = 0,
      pc_legal_moves = (\<lambda>p. if p < 3 then [''e2e4'', ''d2d4''] else []),
      pc_legal_unlisted = (\<lambda>p m. False),
      pc_is_check = (\<lambda>p. False),
      pc_turn = (\<lambda>p. even p),
      pc_push = (\<lambda>p m. Suc p),
      pc_is_game_over = (\<lambda>p. 3 \<le> p),
      pc_outcome = (\<lambda>p. if 3 \<le> p
                          then Some \<lparr>oc_termination = ''CHECKMATE'', oc_winner = Some (odd p)\<rparr>
                          else None),
      pc_piece_at = (\<lambda>p sq. if sq = 4 then Some (KING, True)
                             else if sq = 60 then Some (KING, False) else None),
      pc_fen = (\<lambda>p. str_nat p)\<rparr>"

text \<open>
  The same library in positions where the side to move may castle short: the list spells
  castling e1g1, and the legality test also accepts the king-takes-rook spelling e1h1, as
  python-chess does.
\<close>

definition castling_chess :: "(nat, string) python_chess" where
  "castling_chess =
     stub_chess\<lparr>pc_legal_moves := (\<lambda>p. if p < 3 then [''e1g1'', ''e1f1''] else []),
                pc_legal_unlisted := (\<lambda>p m. p < 3 \<and> m = ''e1h1'')\<rparr>"

definition stub_chess_board :: "(nat, string) ChessBoard" where
  "stub_chess_board = \<lparr>cb_board = 0, cb_move_history = [], cb_result = None\<rparr>"

definition stub_chess_env :: "(nat, string) ChessEnv" where
  "stub_chess_env =
     \<lparr>ce_board = stub_chess_board, ce_max_steps = 400, ce_steps = 0,
      ce_current_player = True, ce_rng = None\<rparr>"


section \<open>Properties of game/move.py\<close>

lemma ord_char_of: "n < 256 \<Longrightarrow> ord (char_of n) = int n"
  by (simp add: ord_def)

lemma str_int_digit: "0 \<le> r \<Longrightarrow> r < 10 \<Longrightarrow> str_int r = [digit_char (nat r)]"
  by (simp add: str_int_def)

lemma int_of_digit_char: "d < 10 \<Longrightarrow> int_of_char (digit_char d) = Inr (int d)"
  by (simp add: int_of_char_def is_ascii_digit_def digit_char_def ord_def)

lemma index_roundtrip:
  assumes "0 \<le> i" "i < 64"
  shows "index_to_square i = (char_of (nat (97 + i mod 8)), [digit_char (nat (i div 8 + 1))])"
    and "square_to_index (char_of (nat (97 + i mod 8))) (digit_char (nat (i div 8 + 1))) = Inr i"
proof -
  have r: "0 \<le> i div 8 + 1" "i div 8 + 1 < 10" using assms by auto
  show "index_to_square i = (char_of (nat (97 + i mod 8)), [digit_char (nat (i div 8 + 1))])"
    using r by (simp add: index_to_square_def str_int_digit ord_def Let_def)
  have m: "0 \<le> i mod 8" "i mod 8 < 8" by auto
  have "nat (i div 8 + 1) < 10" using r by auto
  then have d: "int_of_char (digit_char (nat (i div 8 + 1))) = Inr (i div 8 + 1)"
    using r by (simp add: int_of_digit_char)
  have "nat (97 + i mod 8) < 256" using m by auto
  then have o: "ord (char_of (nat (97 + i mod 8))) = 97 + i mod 8"
    using m by (simp add: ord_char_of)
  show "square_to_index (char_of (nat (97 + i mod 8))) (digit_char (nat (i div 8 + 1))) = Inr i"
    by (simp add: square_to_index_def d o ebind_def ord_def Let_def)
qed


lemma to_uci_shape:
  assumes "0 \<le> from_sq m" "from_sq m < 64" "0 \<le> to_sq m" "to_sq m < 64"
  shows "to_uci m =
     [char_of (nat (97 + from_sq m mod 8)), digit_char (nat (from_sq m div 8 + 1)),
      char_of (nat (97 + to_sq m mod 8)), digit_char (nat (to_sq m div 8 + 1))]
     @ (case promotion m of None \<Rightarrow> [] | Some p \<Rightarrow> if p \<noteq> 0 then promotion_suffix p else [])"
  using assms by (simp add: to_uci_def index_roundtrip(1) Let_def split: option.split)

lemma from_uci_four:
  assumes "square_to_index a b = Inr f" "square_to_index c d = Inr t"
  shows "from_uci ([a, b, c, d] @ rest) =
     Inr \<lparr>from_sq = f, to_sq = t,
          promotion = (case rest of [x] \<Rightarrow> promotion_of_char x | _ \<Rightarrow> None),
          metadata = None\<rparr>"
  using assms
  by (cases rest; cases "tl rest") (auto simp: from_uci_def ebind_def str_index_def)

text \<open>
  Claim C4, as amended. For every Move whose \<open>from_sq\<close> and \<open>to_sq\<close> lie in 0..63, whose
  promotion is \<open>None\<close> or one of the codes 2, 3, 4, 5, and whose \<open>metadata\<close> is \<open>None\<close>, parsing
  its notation gives the same Move back: \<open>Move.from_uci(m.to_uci()) == m\<close>.
\<close>

theorem from_uci_to_uci_roundtrip:
  fixes m :: "'a Move"
  assumes "0 \<le> from_sq m" "from_sq m < 64" "0 \<le> to_sq m" "to_sq m < 64"
    and "promotion m \<in> {None, Some 2, Some 3, Some 4, Some 5}"
    and "metadata m = None"
  shows "from_uci (to_uci m) = Inr m"
proof -
  let ?rest = "case promotion m of None \<Rightarrow> [] | Some p \<Rightarrow> if p \<noteq> 0 then promotion_suffix p else []"
  have p: "(case ?rest of [x] \<Rightarrow> promotion_of_char x | _ \<Rightarrow> None) = promotion m"
    using assms(5)
    by (auto simp: promotion_suffix_def promotion_of_char_def ascii_lower_def ord_def)
  have "from_uci (to_uci m) =
     Inr \<lparr>from_sq = from_sq m, to_sq = to_sq m, promotion = promotion m, metadata = None\<rparr>"
    unfolding to_uci_shape [OF assms(1-4)]
    by (subst from_uci_four [OF index_roundtrip(2) index_roundtrip(2)])
       (use assms(1-4) p in simp_all)
  then show ?thesis using assms(6) by (cases m) simp
qed

theorem from_uci_to_uci_roundtrip_witness:
  "from_uci (to_uci \<lparr>from_sq = 52, to_sq = 60, promotion = Some 5,
       metadata = (None :: (string \<times> string) list option)\<rparr>)
   = Inr \<lparr>from_sq = 52, to_sq = 60, promotion = Some 5,
       metadata = (None :: (string \<times> string) list option)\<rparr>"
  using from_uci_to_uci_roundtrip
    [of "\<lparr>from_sq = 52, to_sq = 60, promotion = Some 5,
         metadata = (None :: (string \<times> string) list option)\<rparr>"]
  by simp

text \<open>
  The notation does not carry \<open>metadata\<close>, and \<open>from_uci\<close> always builds a Move whose
  \<open>metadata\<close> is \<open>None\<close>; dataclass equality compares all four fields. So a Move with valid
  squares and no promotion, but with metadata, does not round-trip.
\<close>

lemma to_uci_e2e4: "to_uci \<lparr>from_sq = 12, to_sq = 28, promotion = None,
       metadata = Some [(''san'', ''e4'')]\<rparr> = ''e2e4''"
  by code_simp

theorem roundtrip_metadata_counterexample:
  "promotion \<lparr>from_sq = 12, to_sq = 28, promotion = None,
       metadata = Some [(''san'', ''e4'')]\<rparr> = None
   \<and> from_uci (to_uci \<lparr>from_sq = 12, to_sq = 28, promotion = None,
       metadata = Some [(''san'', ''e4'')]\<rparr>)
   \<noteq> Inr \<lparr>from_sq = 12, to_sq = 28, promotion = None, metadata = Some [(''san'', ''e4'')]\<rparr>"
  by (simp add: to_uci_e2e4 from_uci_def ebind_def str_index_def square_to_index_def
      int_of_char_def is_ascii_digit_def ord_def)


lemma from_uci_short: "length s < 4 \<Longrightarrow> from_uci s = Inl IndexError"
  by (auto simp: from_uci_def ebind_def str_index_def)

lemma square_to_index_cases:
  "square_to_index f r =
     (if is_ascii_digit r then Inr ((ord r - 48 - 1) * 8 + (ord f - 97))
      else Inl (ValueError ''invalid literal for int()''))"
  by (simp add: square_to_index_def int_of_char_def ebind_def ord_def)

lemma from_uci_long:
  "4 \<le> length s \<Longrightarrow> from_uci s =
     (if is_ascii_digit (s ! 1) \<and> is_ascii_digit (s ! 3) then
        Inr \<lparr>from_sq = (ord (s ! 1) - 48 - 1) * 8 + (ord (s ! 0) - 97),
             to_sq = (ord (s ! 3) - 48 - 1) * 8 + (ord (s ! 2) - 97),
             promotion = (if length s = 5 then promotion_of_char (s ! 4) else None),
             metadata = None\<rparr>
      else Inl (ValueError ''invalid literal for int()''))"
  by (auto simp: from_uci_def ebind_def str_index_def square_to_index_cases)

text \<open>
  Claim C5, as amended. \<open>Move.from_uci\<close> fails with \<open>IndexError\<close> when the text has fewer than
  four characters, and with \<open>ValueError\<close> when it has at least four and the second or the
  fourth character is not a decimal digit. In every other case it returns a Move: the file
  letters are not checked, the digits 0 and 9 are accepted, and characters after the fifth
  are ignored, so the squares of the result may lie outside 0..63.
\<close>

theorem from_uci_failure_cases:
  "(length s < 4 \<longrightarrow> (from_uci s :: py_error + 'a Move) = Inl IndexError) \<and>
   (4 \<le> length s \<and> \<not> (is_ascii_digit (s ! 1) \<and> is_ascii_digit (s ! 3)) \<longrightarrow>
      (from_uci s :: py_error + 'a Move) = Inl (ValueError ''invalid literal for int()'')) \<and>
   (4 \<le> length s \<and> is_ascii_digit (s ! 1) \<and> is_ascii_digit (s ! 3) \<longrightarrow>
      (from_uci s :: py_error + 'a Move) =
        Inr \<lparr>from_sq = (ord (s ! 1) - 48 - 1) * 8 + (ord (s ! 0) - 97),
             to_sq = (ord (s ! 3) - 48 - 1) * 8 + (ord (s ! 2) - 97),
             promotion = (if length s = 5 then promotion_of_char (s ! 4) else None),
             metadata = None\<rparr>)"
  using from_uci_short [of s] from_uci_long [of s] by auto

theorem from_uci_failure_cases_witness:
  "(from_uci ''e2'' :: py_error + unit Move) = Inl IndexError \<and>
   (from_uci ''exe4'' :: py_error + unit Move) = Inl (ValueError ''invalid literal for int()'') \<and>
   (from_uci ''e7e8q'' :: py_error + unit Move) =
      Inr \<lparr>from_sq = 52, to_sq = 60, promotion = Some 5, metadata = None\<rparr>"
  using from_uci_failure_cases [of "''e2''", where 'a = unit]
    from_uci_failure_cases [of "''exe4''", where 'a = unit]
    from_uci_failure_cases [of "''e7e8q''", where 'a = unit]
  by (simp add: is_ascii_digit_def ord_def promotion_of_char_def ascii_lower_def)

text \<open>
  The claim as stated fails: a six-character text and a text with the file letter \<open>z\<close> and
  the rank digit \<open>9\<close> are both parsed without error, the second into square 89.
\<close>

theorem from_uci_no_validation_counterexample:
  "length ''e2e4xx'' = 6 \<and>
   (from_uci ''e2e4xx'' :: py_error + unit Move) =
      Inr \<lparr>from_sq = 12, to_sq = 28, promotion = None, metadata = None\<rparr> \<and>
   (from_uci ''z9z9'' :: py_error + unit Move) =
      Inr \<lparr>from_sq = 89, to_sq = 89, promotion = None, metadata = None\<rparr>"
  by (simp add: from_uci_long is_ascii_digit_def ord_def)


section \<open>Properties of the boards and environments\<close>


lemma XiangqiBoard_no_legal_moves: "XiangqiBoard_get_legal_moves b player = []"
  by (simp add: XiangqiBoard_get_legal_moves_def)

lemma XiangqiBoard_apply_move_rejects:
  "XiangqiBoard_apply_move b move = (Inl (ValueError ''Illegal move''), b)"
  by (simp add: XiangqiBoard_apply_move_def XiangqiBoard_no_legal_moves)

lemma XiangqiEnv_step_cases:
  "XiangqiEnv_step env action =
     (if 0 \<le> action then (Inl (ValueError ''Invalid action index''), env)
      else (Inl IndexError, env))"
  by (simp add: XiangqiEnv_step_def XiangqiBoard_no_legal_moves list_index_def)

text \<open>
  Claim C10. \<open>XiangqiEnv\<close> is built over the native \<open>XiangqiBoard\<close>, whose
  \<open>get_legal_moves\<close> returns the empty list for every board and every player argument. So
  after \<open>reset\<close>, \<open>step\<close> raises the invalid-action \<open>ValueError\<close> for every non-negative
  action index and leaves the environment as it was; and for any environment and any
  index at all, \<open>step\<close> ends in an exception with the environment unchanged: an episode
  never advances.
\<close>

theorem XiangqiEnv_never_advances:
  assumes "0 \<le> action"
  shows "xe_board (XiangqiEnv_init max_steps) = XiangqiBoard_init
    \<and> XiangqiBoard_get_legal_moves b player = []
    \<and> XiangqiEnv_step (XiangqiEnv_reset env seed) action
        = (Inl (ValueError ''Invalid action index''), XiangqiEnv_reset env seed)
    \<and> (\<forall>a. \<exists>e. XiangqiEnv_step env a = (Inl e, env))"
  using assms
  by (simp add: XiangqiEnv_step_cases XiangqiBoard_no_legal_moves XiangqiEnv_init_def)

theorem XiangqiEnv_never_advances_witness:
  "XiangqiEnv_step (XiangqiEnv_reset (XiangqiEnv_init 400) None) 0
     = (Inl (ValueError ''Invalid action index''), XiangqiEnv_reset (XiangqiEnv_init 400) None)"
  using XiangqiEnv_never_advances [of 0 400 XiangqiBoard_init None "XiangqiEnv_init 400" None]
  by simp

lemma ChessEnv_step_too_large:
  "int (length (ChessBoard_get_legal_moves L (ce_board env) None)) \<le> action \<Longrightarrow>
   ChessEnv_step L env action = (Inl (ValueError ''Invalid action index''), env)"
  by (simp add: ChessEnv_step_def)

lemma ChessEnv_step_far_negative:
  "action < - int (length (ChessBoard_get_legal_moves L (ce_board env) None)) \<Longrightarrow>
   ChessEnv_step L env action = (Inl IndexError, env)"
  by (simp add: ChessEnv_step_def list_index_def Let_def)

lemma ChessBoard_apply_move_accepted:
  assumes "pc_contains L (cb_board b) move"
  shows "\<exists>r b'. ChessBoard_apply_move L b move = (Inr r, b')
     \<and> cb_move_history b' = cb_move_history b @ [move]
     \<and> cb_board b' = pc_push L (cb_board b) move"
  using assms
  by (auto simp: ChessBoard_apply_move_def Let_def split: option.splits)

lemma ChessBoard_apply_move_legal:
  assumes "move \<in> set (pc_legal_moves L (cb_board b))"
  shows "\<exists>r b'. ChessBoard_apply_move L b move = (Inr r, b')
     \<and> cb_move_history b' = cb_move_history b @ [move]
     \<and> cb_board b' = pc_push L (cb_board b) move"
  using assms by (intro ChessBoard_apply_move_accepted) (simp add: pc_contains_def)

text \<open>
  Claim C3, where the code departs from it. \<open>step\<close> only tests \<open>action >= len(legal_moves)\<close>.
  A negative index from \<open>-len(legal_moves)\<close> to \<open>-1\<close> passes the test, Python's list
  indexing counts it from the end, and the move found there is applied: \<open>step\<close> returns
  normally, the move history grows by that move and the step counter by one.
\<close>

theorem ChessEnv_step_negative_index:
  assumes "ms = ChessBoard_get_legal_moves L (ce_board env) None"
    and "- int (length ms) \<le> action" and "action < 0"
  shows "\<exists>r env'. ChessEnv_step L env action = (Inr r, env')
     \<and> cb_move_history (ce_board env')
        = cb_move_history (ce_board env) @ [ms ! nat (int (length ms) + action)]
     \<and> ce_steps env' = ce_steps env + 1"
proof -
  let ?mv = "ms ! nat (int (length ms) + action)"
  have idx: "list_index ms action = Inr ?mv"
    using assms(2,3) by (simp add: list_index_def Let_def)
  have ms: "ms = pc_legal_moves L (cb_board (ce_board env))"
    using assms(1) by (simp add: ChessBoard_get_legal_moves_def)
  have "nat (int (length ms) + action) < length ms" using assms(2,3) by auto
  then have "?mv \<in> set (pc_legal_moves L (cb_board (ce_board env)))"
    using ms nth_mem by metis
  from ChessBoard_apply_move_legal [OF this]
  obtain r b' where ap: "ChessBoard_apply_move L (ce_board env) ?mv = (Inr r, b')"
    "cb_move_history b' = cb_move_history (ce_board env) @ [?mv]" by blast
  have "\<not> int (length ms) \<le> action" using assms(3) by simp
  then show ?thesis
    using idx ap assms(1)
    by (cases r) (simp add: ChessEnv_step_def Let_def)
qed

theorem ChessEnv_step_negative_index_witness:
  "\<exists>r env'. ChessEnv_step stub_chess stub_chess_env (- 1) = (Inr r, env')
     \<and> cb_move_history (ce_board env') = [''d2d4'']
     \<and> ce_steps env' = 1"
  using ChessEnv_step_negative_index
    [of "[''e2e4'', ''d2d4'']" stub_chess stub_chess_env "- 1"]
  by (simp add: ChessBoard_get_legal_moves_def stub_chess_def stub_chess_env_def
      stub_chess_board_def)

lemma ChessBoard_apply_move_illegal:
  "\<not> pc_contains L (cb_board b) move \<Longrightarrow>
   ChessBoard_apply_move L b move = (Inl (ValueError ''Illegal move''), b)"
  by (simp add: ChessBoard_apply_move_def)

lemma XiangqiPyffishBoard_apply_move_illegal:
  assumes "XiangqiPyffishBoard_get_legal_moves sf b None = Inr ms" "move \<notin> set ms"
  shows "XiangqiPyffishBoard_apply_move sf b move = (Inl (ValueError ''Illegal move''), b)"
proof -
  from assms(1) obtain strs where
    s: "legal_moves_with_fallback sf (pb_variant b) (pb_current_fen b) = Inr strs"
    and m: "ms = map XiangqiPyffishMove strs"
    by (auto simp: XiangqiPyffishBoard_get_legal_moves_def ebind_def split: sum.splits)
  have "move_str move \<notin> set strs"
  proof
    assume "move_str move \<in> set strs"
    then have "XiangqiPyffishMove (move_str move) \<in> set ms" using m by (simp del: XiangqiPyffishMove.collapse)
    then show False using assms(2) by simp
  qed
  then show ?thesis using s by (simp add: XiangqiPyffishBoard_apply_move_def)
qed

lemma SimpleXiangqiBoard_make_move_illegal:
  "mv \<notin> set (SimpleXiangqiBoard_get_legal_moves sf b) \<Longrightarrow>
   SimpleXiangqiBoard_make_move sf b mv = (Inl (ValueError ''Illegal move''), b)"
  by (simp add: SimpleXiangqiBoard_make_move_def)

text \<open>
  Claim C2, as amended. For \<open>XiangqiPyffishBoard\<close>, \<open>SimpleXiangqiBoard\<close> and the native
  \<open>XiangqiBoard\<close>, a move that is not in the current \<open>get_legal_moves()\<close> makes \<open>apply_move\<close>
  (\<open>make_move\<close>) raise the illegal-move \<open>ValueError\<close> and leaves the whole board, hence its
  state hash and its move history, as it was before the call. \<open>ChessBoard.apply_move\<close> does
  so for every move that the library's test \<open>move in board.legal_moves\<close> rejects; a move
  that the test accepts is applied and appended to the move history, whether or not it is
  an element of \<open>get_legal_moves()\<close>.
\<close>

theorem apply_move_illegal_leaves_board_unchanged:
  "(\<not> pc_contains L (cb_board cb) move \<longrightarrow>
      ChessBoard_apply_move L cb move = (Inl (ValueError ''Illegal move''), cb)) \<and>
   (pc_contains L (cb_board cb) move \<longrightarrow>
      (\<exists>r cb'. ChessBoard_apply_move L cb move = (Inr r, cb') \<and>
         cb_move_history cb' = cb_move_history cb @ [move])) \<and>
   (XiangqiPyffishBoard_get_legal_moves sf pb None = Inr ms \<and> pmove \<notin> set ms \<longrightarrow>
      XiangqiPyffishBoard_apply_move sf pb pmove = (Inl (ValueError ''Illegal move''), pb)) \<and>
   (smove \<notin> set (SimpleXiangqiBoard_get_legal_moves sf sb) \<longrightarrow>
      SimpleXiangqiBoard_make_move sf sb smove = (Inl (ValueError ''Illegal move''), sb)) \<and>
   (xmove \<notin> set (XiangqiBoard_get_legal_moves xb None) \<longrightarrow>
      XiangqiBoard_apply_move xb xmove = (Inl (ValueError ''Illegal move''), xb))"
  using ChessBoard_apply_move_illegal [of L cb move]
    ChessBoard_apply_move_accepted [of L cb move]
    XiangqiPyffishBoard_apply_move_illegal [of sf pb ms pmove]
    SimpleXiangqiBoard_make_move_illegal [of smove sf sb]
    XiangqiBoard_apply_move_rejects [of xb xmove]
  by blast

text \<open>
  The claim as stated fails on \<open>ChessBoard\<close>. Where the side to move may castle short,
  \<open>get_legal_moves()\<close> lists castling as e1g1 and does not contain e1h1; the library's
  legality test accepts e1h1 all the same, so \<open>apply_move\<close> does not raise: the move is
  pushed and the move history grows.
\<close>

theorem castling_spelling_applied_counterexample:
  "''e1h1'' \<notin> set (ChessBoard_get_legal_moves castling_chess stub_chess_board None) \<and>
   ChessBoard_apply_move castling_chess stub_chess_board ''e1h1'' =
     (Inr (0, False), \<lparr>cb_board = 1, cb_move_history = [''e1h1''], cb_result = None\<rparr>)"
  by (simp add: ChessBoard_get_legal_moves_def ChessBoard_apply_move_def pc_contains_def
      castling_chess_def stub_chess_def stub_chess_board_def Let_def)

lemma fen_start_side: "fen_side_field fen_start = Inr ''w''"
  by (simp add: fen_side_field_def fen_start_def list_index_def)

lemma stub_start_moves: "XiangqiPyffishBoard_get_legal_moves stub_sf
    (XiangqiPyffishBoard_init stub_sf None) None
   = Inr [XiangqiPyffishMove ''h3h10'', XiangqiPyffishMove ''e4e5'']"
  by (simp add: XiangqiPyffishBoard_get_legal_moves_def XiangqiPyffishBoard_init_def
      stub_sf_def fen_start_side ebind_def legal_moves_with_fallback_def)

theorem apply_move_illegal_leaves_board_unchanged_witness:
  "ChessBoard_apply_move stub_chess stub_chess_board ''e2e5''
      = (Inl (ValueError ''Illegal move''), stub_chess_board) \<and>
   XiangqiPyffishBoard_apply_move stub_sf (XiangqiPyffishBoard_init stub_sf None)
        (XiangqiPyffishMove ''a1a9'')
      = (Inl (ValueError ''Illegal move''), XiangqiPyffishBoard_init stub_sf None) \<and>
   XiangqiBoard_apply_move XiangqiBoard_init
        \<lparr>from_pos = (0, 0), to_pos = (1, 0), piece_type = CHARIOT, piece_color = True\<rparr>
      = (Inl (ValueError ''Illegal move''), XiangqiBoard_init)"
  using apply_move_illegal_leaves_board_unchanged
    [where L = stub_chess and cb = stub_chess_board and move = "''e2e5''"
       and sf = stub_sf and pb = "XiangqiPyffishBoard_init stub_sf None"
       and ms = "[XiangqiPyffishMove ''h3h10'', XiangqiPyffishMove ''e4e5'']"
       and pmove = "XiangqiPyffishMove ''a1a9''"
       and sb = "\<lparr>sb_variant = ''xiangqi'', sb_current_fen = fen_start,
                  sb_move_history = [], sb_result = None\<rparr>"
       and smove = "''a1a9''"
       and xb = XiangqiBoard_init
       and xmove = "\<lparr>from_pos = (0, 0), to_pos = (1, 0), piece_type = CHARIOT, piece_color = True\<rparr>"]
    stub_start_moves
  by (simp add: pc_contains_def stub_chess_def stub_chess_board_def
      XiangqiBoard_no_legal_moves)

text \<open>
  Claim C1, where the code departs from it. In \<open>XiangqiPyffishBoard.apply_move\<close> the reward
  of a move that ends the game is \<open>1 if prev_player else -1\<close>, where \<open>prev_player\<close> is true
  when Red has just moved. When Black's move ends the game (the side field of the new FEN
  is \<open>w\<close>), the board records Black as the winner and returns the reward -1 to Black, the
  mover: the sign is relative to Red, not to the mover.
\<close>

theorem XiangqiPyffishBoard_reward_fixed_to_red:
  assumes "XiangqiPyffishBoard_apply_move sf b move = (Inr (reward, done), b')"
    and "done"
    and "fen_side_field (pb_current_fen b') = Inr ''w''"
  shows "reward = - 1 \<and> gr_winner (the (pb_result b')) = Some ''black''"
  using assms
  by (auto simp: XiangqiPyffishBoard_apply_move_def Let_def
      split: sum.splits if_splits)

lemma fen_red_mated_side: "fen_side_field fen_red_mated = Inr ''w''"
  by (simp add: fen_side_field_def fen_red_mated_def list_index_def)

lemma stub_black_mates_run:
  "XiangqiPyffishBoard_apply_move stub_sf
     (XiangqiPyffishBoard_init stub_sf (Some fen_black_mates)) (XiangqiPyffishMove ''b3b1'')
   = (Inr (- 1, True),
      \<lparr>pb_variant = ''xiangqi'', pb_current_fen = fen_red_mated, pb_move_history = [''b3b1''],
       pb_result = Some \<lparr>gr_winner = Some ''black'', gr_termination = Some ''checkmate'',
                         gr_moves = None\<rparr>\<rparr>)"
proof -
  have ne: "fen_black_mates \<noteq> []" "fen_black_mates \<noteq> fen_start"
    "fen_black_mates \<noteq> fen_after_e4e5" "fen_red_mated \<noteq> fen_start"
    "fen_red_mated \<noteq> fen_after_e4e5" "fen_red_mated \<noteq> fen_black_mates"
    by (simp_all add: fen_black_mates_def fen_start_def fen_after_e4e5_def fen_red_mated_def)
  show ?thesis
    by (simp add: XiangqiPyffishBoard_apply_move_def XiangqiPyffishBoard_init_def ne
        legal_moves_with_fallback_def stub_sf_def fen_red_mated_side)
qed

theorem XiangqiPyffishBoard_reward_fixed_to_red_witness:
  "XiangqiPyffishBoard_apply_move stub_sf
     (XiangqiPyffishBoard_init stub_sf (Some fen_black_mates)) (XiangqiPyffishMove ''b3b1'')
   = (Inr (- 1, True),
      \<lparr>pb_variant = ''xiangqi'', pb_current_fen = fen_red_mated, pb_move_history = [''b3b1''],
       pb_result = Some \<lparr>gr_winner = Some ''black'', gr_termination = Some ''checkmate'',
                         gr_moves = None\<rparr>\<rparr>)
   \<and> fen_side_field fen_black_mates = Inr ''b''"
  using XiangqiPyffishBoard_reward_fixed_to_red [OF stub_black_mates_run]
    stub_black_mates_run
  by (simp add: fen_red_mated_side fen_side_field_def fen_black_mates_def list_index_def)

lemma ChessBoard_reward_relative_to_mover:
  assumes "ChessBoard_apply_move L b move = (Inr (reward, done), b')"
  shows "reward =
     (if done then
        (case pc_outcome L (cb_board b') of
           None \<Rightarrow> 0
         | Some r \<Rightarrow> (case oc_winner r of
                        None \<Rightarrow> 0
                      | Some w \<Rightarrow> if w = pc_turn L (cb_board b) then 1 else - 1))
      else 0)"
  using assms
  by (auto simp: ChessBoard_apply_move_def Let_def split: if_splits option.splits)

lemma SimpleXiangqiBoard_reward_relative_to_mover:
  assumes "SimpleXiangqiBoard_make_move sf b mv = (Inr (reward, done), b')"
  shows "reward = (if done then 1 else 0)"
  using assms
  by (auto simp: SimpleXiangqiBoard_make_move_def Let_def split: if_splits sum.splits)


subsection \<open>Runs of the small libraries\<close>

lemma fen_sides:
  "fen_side_field fen_start = Inr ''w''"
  "fen_side_field fen_after_e4e5 = Inr ''b''"
  "fen_side_field fen_after_e7e6 = Inr ''w''"
  "fen_side_field fen_black_mates = Inr ''b''"
  "fen_side_field fen_red_mated = Inr ''w''"
  "fen_side_field fen_bare_kings = Inr ''w''"
  by (simp_all add: fen_side_field_def list_index_def fen_start_def fen_after_e4e5_def
      fen_after_e7e6_def fen_black_mates_def fen_red_mated_def fen_bare_kings_def)

lemma fen_distinct:
  "fen_start \<noteq> []" "fen_after_e4e5 \<noteq> []" "fen_bare_kings \<noteq> []" "fen_black_mates \<noteq> []"
  "fen_after_e4e5 \<noteq> fen_start" "fen_after_e7e6 \<noteq> fen_start" "fen_black_mates \<noteq> fen_start"
  "fen_red_mated \<noteq> fen_start" "fen_bare_kings \<noteq> fen_start"
  "fen_after_e7e6 \<noteq> fen_after_e4e5" "fen_black_mates \<noteq> fen_after_e4e5"
  "fen_red_mated \<noteq> fen_after_e4e5" "fen_bare_kings \<noteq> fen_after_e4e5"
  "fen_red_mated \<noteq> fen_black_mates" "fen_bare_kings \<noteq> fen_black_mates"
  "fen_after_e7e6 \<noteq> fen_black_mates" "fen_after_e7e6 \<noteq> fen_red_mated"
  "fen_bare_kings \<noteq> fen_red_mated"
  by (simp_all add: fen_start_def fen_after_e4e5_def fen_after_e7e6_def fen_black_mates_def
      fen_red_mated_def fen_bare_kings_def)

lemma stub_sf_calls:
  "sf_start_fen stub_sf v = fen_start"
  "sf_legal_moves3 stub_sf v fen_start = Inr [''h3h10'', ''e4e5'']"
  "sf_legal_moves3 stub_sf v fen_after_e4e5 = Inr [''e7e6'']"
  "sf_legal_moves3 stub_sf v fen_after_e7e6 = Inl (OracleError ''unknown position'')"
  "sf_legal_moves3 stub_sf v fen_bare_kings = Inl (OracleError ''unknown position'')"
  "sf_legal_moves3 stub_sf v fen_black_mates = Inr [''b3b1'', ''a2a1'']"
  "sf_legal_moves3 stub_sf v fen_red_mated = Inr []"
  "sf_legal_moves2 stub_sf v fen = Inl (OracleError ''legal_moves takes three arguments'')"
  "sf_get_fen stub_sf v fen_start [''e4e5''] = Inr fen_after_e4e5"
  "sf_get_fen stub_sf v fen_start [''h3h10''] = Inl (OracleError ''unknown position'')"
  "sf_get_fen stub_sf v fen_after_e4e5 [''e7e6''] = Inr fen_after_e7e6"
  "sf_get_fen stub_sf v fen_black_mates [''b3b1''] = Inr fen_red_mated"
  by (simp_all add: stub_sf_def fen_distinct)

lemma two_arg_sf_calls:
  "sf_legal_moves3 two_arg_sf v fen = Inl (OracleError ''legal_moves takes two arguments'')"
  "sf_legal_moves2 two_arg_sf v fen_black_mates = Inr [''b3b1'', ''a2a1'']"
  "sf_legal_moves2 two_arg_sf v fen_red_mated = Inr []"
  "sf_get_fen two_arg_sf v fen_black_mates [''b3b1''] = Inr fen_red_mated"
  by (simp_all add: two_arg_sf_def stub_sf_calls)

lemma stub_boards:
  "XiangqiPyffishBoard_init stub_sf None =
     \<lparr>pb_variant = ''xiangqi'', pb_current_fen = fen_start, pb_move_history = [],
      pb_result = None\<rparr>"
  "XiangqiPyffishBoard_init stub_sf (Some fen_bare_kings) =
     \<lparr>pb_variant = ''xiangqi'', pb_current_fen = fen_bare_kings, pb_move_history = [],
      pb_result = None\<rparr>"
  "XiangqiPyffishBoard_init stub_sf (Some fen_after_e4e5) =
     \<lparr>pb_variant = ''xiangqi'', pb_current_fen = fen_after_e4e5, pb_move_history = [],
      pb_result = None\<rparr>"
  "XiangqiPyffishBoard_init two_arg_sf (Some fen_black_mates) =
     \<lparr>pb_variant = ''xiangqi'', pb_current_fen = fen_black_mates, pb_move_history = [],
      pb_result = None\<rparr>"
  by (simp_all add: XiangqiPyffishBoard_init_def stub_sf_calls fen_distinct)

lemma initial_grid:
  "setup_initial_position (replicate 10 (replicate 9 0)) =
     [[5, 4, 3, 2, 1, 2, 3, 4, 5],
      [0, 0, 0, 0, 0, 0, 0, 0, 0],
      [0, 6, 0, 0, 0, 0, 0, 6, 0],
      [7, 0, 7, 0, 7, 0, 7, 0, 7],
      [0, 0, 0, 0, 0, 0, 0, 0, 0],
      [0, 0, 0, 0, 0, 0, 0, 0, 0],
      [- 7, 0, - 7, 0, - 7, 0, - 7, 0, - 7],
      [0, - 6, 0, 0, 0, 0, 0, - 6, 0],
      [0, 0, 0, 0, 0, 0, 0, 0, 0],
      [- 5, - 4, - 3, - 2, - 1, - 2, - 3, - 4, - 5]]"
  by code_simp

subsection \<open>Exceptions of the oracle\<close>

lemma fallback_retry:
  "sf_legal_moves3 sf v fen = Inl e \<Longrightarrow>
   legal_moves_with_fallback sf v fen = sf_legal_moves2 sf v fen"
  by (simp add: legal_moves_with_fallback_def)

lemma XiangqiPyffishBoard_get_fen_raises:
  assumes "legal_moves_with_fallback sf (pb_variant b) (pb_current_fen b) = Inr legal"
    and "move_str move \<in> set legal"
    and "sf_get_fen sf (pb_variant b) (pb_current_fen b) [move_str move] = Inl e"
  shows "XiangqiPyffishBoard_apply_move sf b move = (Inl (ValueError ''Error applying move''), b)"
  using assms by (simp add: XiangqiPyffishBoard_apply_move_def Let_def)

lemma SimpleXiangqiBoard_get_fen_raises:
  assumes "mv \<in> set (SimpleXiangqiBoard_get_legal_moves sf b)"
    and "sf_get_fen sf (sb_variant b) (sb_current_fen b) [mv] = Inl e"
  shows "SimpleXiangqiBoard_make_move sf b mv = (Inl (ValueError ''Error making move''), b)"
  using assms by (simp add: SimpleXiangqiBoard_make_move_def Let_def)

lemma XiangqiPyffishBoard_check_raises:
  assumes "legal_moves_with_fallback sf (pb_variant b) (pb_current_fen b) = Inr legal"
    and "move_str move \<in> set legal"
    and "sf_get_fen sf (pb_variant b) (pb_current_fen b) [move_str move] = Inr fen'"
    and "sf_legal_moves3 sf (pb_variant b) fen' = Inl e"
    and "sf_legal_moves2 sf (pb_variant b) fen' = Inl e2"
  shows "XiangqiPyffishBoard_apply_move sf b move =
     (Inr (0, False),
      b\<lparr>pb_move_history := pb_move_history b @ [move_str move], pb_current_fen := fen'\<rparr>)"
  using assms
  by (simp add: XiangqiPyffishBoard_apply_move_def Let_def fallback_retry [OF assms(4)])

lemma XiangqiPyffishBoard_check_retry_answer:
  assumes "legal_moves_with_fallback sf (pb_variant b) (pb_current_fen b) = Inr legal"
    and "move_str move \<in> set legal"
    and "sf_get_fen sf (pb_variant b) (pb_current_fen b) [move_str move] = Inr fen'"
    and "sf_legal_moves3 sf (pb_variant b) fen' = Inl e"
    and "sf_legal_moves2 sf (pb_variant b) fen' = Inr ms2"
  shows "\<exists>reward b'. XiangqiPyffishBoard_apply_move sf b move = (Inr (reward, ms2 = []), b')"
  using assms
  by (auto simp: XiangqiPyffishBoard_apply_move_def Let_def fallback_retry [OF assms(4)]
      split: sum.splits)

lemma XiangqiPyffishBoard_legality_raises:
  assumes "sf_legal_moves3 sf (pb_variant b) (pb_current_fen b) = Inl e"
    and "sf_legal_moves2 sf (pb_variant b) (pb_current_fen b) = Inl e2"
  shows "XiangqiPyffishBoard_apply_move sf b move = (Inl e2, b)"
  using assms
  by (simp add: XiangqiPyffishBoard_apply_move_def fallback_retry [OF assms(1)])

lemma XiangqiPyffishBoard_get_legal_moves_retry:
  assumes "sf_legal_moves3 sf (pb_variant b) (pb_current_fen b) = Inl e"
    and "fen_side_field (pb_current_fen b) = Inr side"
  shows "XiangqiPyffishBoard_get_legal_moves sf b None =
     (case sf_legal_moves2 sf (pb_variant b) (pb_current_fen b) of
        Inl e2 \<Rightarrow> Inl e2
      | Inr ms \<Rightarrow> Inr (map XiangqiPyffishMove ms))"
  using assms
  by (simp add: XiangqiPyffishBoard_get_legal_moves_def ebind_def
      fallback_retry [OF assms(1)] split: sum.splits)

lemma SimpleXiangqiBoard_check_raises:
  assumes "mv \<in> set (SimpleXiangqiBoard_get_legal_moves sf b)"
    and "sf_get_fen sf (sb_variant b) (sb_current_fen b) [mv] = Inr fen'"
    and "sf_legal_moves3 sf (sb_variant b) fen' = Inl e"
  shows "SimpleXiangqiBoard_make_move sf b mv =
     (Inr (0, False), b\<lparr>sb_move_history := sb_move_history b @ [mv], sb_current_fen := fen'\<rparr>)"
  using assms by (simp add: SimpleXiangqiBoard_make_move_def Let_def)

text \<open>
  Claim C8, as amended. An exception of the oracle's legal-move call never makes a
  position terminal. When the three-argument call raises, \<open>is_game_over\<close> of both
  oracle-backed boards returns False, and \<open>SimpleXiangqiBoard.get_legal_moves\<close> returns the
  empty list; \<open>XiangqiPyffishBoard.get_legal_moves\<close> and the legality test of its
  \<open>apply_move\<close> retry with the two-argument call, take its answer, and let its exception
  through (with the board unchanged). In the termination check after a move,
  \<open>XiangqiPyffishBoard.apply_move\<close> retries in the same way: it takes the retry's answer
  (done exactly when that list is empty), and when the retry raises too it returns reward 0
  and done False with the move applied; \<open>SimpleXiangqiBoard.make_move\<close> does not retry and
  returns reward 0 and done False. An exception of the position update \<open>get_fen\<close> during
  \<open>apply_move\<close> or \<open>make_move\<close> is never swallowed: the call raises \<open>ValueError\<close> and the
  board is as it was before the call.
\<close>

theorem oracle_exceptions_read_and_write:
  "(sf_legal_moves3 sf (pb_variant pb) (pb_current_fen pb) = Inl e \<longrightarrow>
      \<not> XiangqiPyffishBoard_is_game_over sf pb \<and>
      (fen_side_field (pb_current_fen pb) = Inr side \<longrightarrow>
         XiangqiPyffishBoard_get_legal_moves sf pb None =
           (case sf_legal_moves2 sf (pb_variant pb) (pb_current_fen pb) of
              Inl er \<Rightarrow> Inl er
            | Inr ms \<Rightarrow> Inr (map XiangqiPyffishMove ms))) \<and>
      (sf_legal_moves2 sf (pb_variant pb) (pb_current_fen pb) = Inl er \<longrightarrow>
         XiangqiPyffishBoard_apply_move sf pb move = (Inl er, pb))) \<and>
   (sf_legal_moves3 sf (sb_variant sb) (sb_current_fen sb) = Inl e \<longrightarrow>
      SimpleXiangqiBoard_get_legal_moves sf sb = [] \<and> \<not> SimpleXiangqiBoard_is_game_over sf sb) \<and>
   (legal_moves_with_fallback sf (pb_variant pb) (pb_current_fen pb) = Inr legal \<and>
    move_str move \<in> set legal \<and>
    sf_get_fen sf (pb_variant pb) (pb_current_fen pb) [move_str move] = Inr fen' \<and>
    sf_legal_moves3 sf (pb_variant pb) fen' = Inl e \<longrightarrow>
      (sf_legal_moves2 sf (pb_variant pb) fen' = Inl er \<longrightarrow>
         XiangqiPyffishBoard_apply_move sf pb move =
           (Inr (0, False),
            pb\<lparr>pb_move_history := pb_move_history pb @ [move_str move],
               pb_current_fen := fen'\<rparr>)) \<and>
      (sf_legal_moves2 sf (pb_variant pb) fen' = Inr retry_ms \<longrightarrow>
         (\<exists>reward pb'. XiangqiPyffishBoard_apply_move sf pb move =
            (Inr (reward, retry_ms = []), pb')))) \<and>
   (mv \<in> set (SimpleXiangqiBoard_get_legal_moves sf sb) \<and>
    sf_get_fen sf (sb_variant sb) (sb_current_fen sb) [mv] = Inr fen' \<and>
    sf_legal_moves3 sf (sb_variant sb) fen' = Inl e \<longrightarrow>
      SimpleXiangqiBoard_make_move sf sb mv =
        (Inr (0, False),
         sb\<lparr>sb_move_history := sb_move_history sb @ [mv], sb_current_fen := fen'\<rparr>)) \<and>
   (legal_moves_with_fallback sf (pb_variant pb) (pb_current_fen pb) = Inr legal \<and>
    move_str move \<in> set legal \<and>
    sf_get_fen sf (pb_variant pb) (pb_current_fen pb) [move_str move] = Inl e \<longrightarrow>
      XiangqiPyffishBoard_apply_move sf pb move = (Inl (ValueError ''Error applying move''), pb)) \<and>
   (mv \<in> set (SimpleXiangqiBoard_get_legal_moves sf sb) \<and>
    sf_get_fen sf (sb_variant sb) (sb_current_fen sb) [mv] = Inl e \<longrightarrow>
      SimpleXiangqiBoard_make_move sf sb mv = (Inl (ValueError ''Error making move''), sb))"
proof -
  have a: "sf_legal_moves3 sf (pb_variant pb) (pb_current_fen pb) = Inl e \<longrightarrow>
      \<not> XiangqiPyffishBoard_is_game_over sf pb"
    by (simp add: XiangqiPyffishBoard_is_game_over_def)
  have b: "sf_legal_moves3 sf (sb_variant sb) (sb_current_fen sb) = Inl e \<longrightarrow>
      SimpleXiangqiBoard_get_legal_moves sf sb = [] \<and> \<not> SimpleXiangqiBoard_is_game_over sf sb"
    by (simp add: SimpleXiangqiBoard_is_game_over_def SimpleXiangqiBoard_get_legal_moves_def)
  show ?thesis
    using a b
      XiangqiPyffishBoard_get_legal_moves_retry [of sf pb e side]
      XiangqiPyffishBoard_legality_raises [of sf pb e er move]
      XiangqiPyffishBoard_check_raises [of sf pb legal move fen' e er]
      XiangqiPyffishBoard_check_retry_answer [of sf pb legal move fen' e retry_ms]
      SimpleXiangqiBoard_check_raises [of mv sf sb fen' e]
      XiangqiPyffishBoard_get_fen_raises [of sf pb legal move e]
      SimpleXiangqiBoard_get_fen_raises [of mv sf sb e]
    by blast
qed

text \<open>
  The claim as stated fails. On a position for which the oracle's legal-move calls raise,
  \<open>XiangqiPyffishBoard.is_game_over\<close> returns False, so the position is not taken to be
  terminal, and \<open>get_legal_moves\<close> lets the exception of the two-argument retry through
  instead of returning no moves. A move into such a position is reported as done = False.
\<close>

theorem oracle_read_exception_not_terminal_counterexample:
  "sf_legal_moves3 stub_sf ''xiangqi'' fen_bare_kings = Inl (OracleError ''unknown position'') \<and>
   \<not> XiangqiPyffishBoard_is_game_over stub_sf
       (XiangqiPyffishBoard_init stub_sf (Some fen_bare_kings)) \<and>
   XiangqiPyffishBoard_get_legal_moves stub_sf
       (XiangqiPyffishBoard_init stub_sf (Some fen_bare_kings)) None
     = Inl (OracleError ''legal_moves takes three arguments'') \<and>
   XiangqiPyffishBoard_apply_move stub_sf
       (XiangqiPyffishBoard_init stub_sf (Some fen_after_e4e5)) (XiangqiPyffishMove ''e7e6'')
     = (Inr (0, False),
        \<lparr>pb_variant = ''xiangqi'', pb_current_fen = fen_after_e7e6,
         pb_move_history = [''e7e6''], pb_result = None\<rparr>)"
  by (simp add: stub_boards stub_sf_calls XiangqiPyffishBoard_is_game_over_def
      XiangqiPyffishBoard_get_legal_moves_def XiangqiPyffishBoard_apply_move_def
      legal_moves_with_fallback_def fen_sides ebind_def)

theorem oracle_exceptions_read_and_write_witness:
  "\<not> XiangqiPyffishBoard_is_game_over stub_sf
       (XiangqiPyffishBoard_init stub_sf (Some fen_bare_kings)) \<and>
   XiangqiPyffishBoard_get_legal_moves stub_sf
       (XiangqiPyffishBoard_init stub_sf (Some fen_bare_kings)) None
     = Inl (OracleError ''legal_moves takes three arguments'') \<and>
   XiangqiPyffishBoard_apply_move stub_sf
       (XiangqiPyffishBoard_init stub_sf (Some fen_bare_kings)) (XiangqiPyffishMove ''e4e5'')
     = (Inl (OracleError ''legal_moves takes three arguments''),
        XiangqiPyffishBoard_init stub_sf (Some fen_bare_kings)) \<and>
   XiangqiPyffishBoard_apply_move stub_sf
       (XiangqiPyffishBoard_init stub_sf (Some fen_after_e4e5)) (XiangqiPyffishMove ''e7e6'')
     = (Inr (0, False),
        \<lparr>pb_variant = ''xiangqi'', pb_current_fen = fen_after_e7e6,
         pb_move_history = [''e7e6''], pb_result = None\<rparr>) \<and>
   (\<exists>reward pb'. XiangqiPyffishBoard_apply_move two_arg_sf
       (XiangqiPyffishBoard_init two_arg_sf (Some fen_black_mates)) (XiangqiPyffishMove ''b3b1'')
     = (Inr (reward, True), pb')) \<and>
   XiangqiPyffishBoard_apply_move stub_sf
       (XiangqiPyffishBoard_init stub_sf None) (XiangqiPyffishMove ''h3h10'')
     = (Inl (ValueError ''Error applying move''), XiangqiPyffishBoard_init stub_sf None) \<and>
   SimpleXiangqiBoard_make_move stub_sf
       \<lparr>sb_variant = ''xiangqi'', sb_current_fen = fen_after_e4e5, sb_move_history = [],
        sb_result = None\<rparr> ''e7e6''
     = (Inr (0, False),
        \<lparr>sb_variant = ''xiangqi'', sb_current_fen = fen_after_e7e6,
         sb_move_history = [''e7e6''], sb_result = None\<rparr>)"
proof -
  let ?sb = "\<lparr>sb_variant = ''xiangqi'', sb_current_fen = fen_after_e4e5, sb_move_history = [],
        sb_result = None\<rparr>"
  let ?u = "OracleError ''unknown position''"
  let ?t = "OracleError ''legal_moves takes three arguments''"
  note i1 = oracle_exceptions_read_and_write
    [where sf = stub_sf and pb = "XiangqiPyffishBoard_init stub_sf (Some fen_bare_kings)"
       and e = ?u and er = ?t and side = "''w''" and move = "XiangqiPyffishMove ''e4e5''"
       and sb = ?sb and legal = "[]" and fen' = fen_after_e7e6 and retry_ms = "[]"
       and mv = "''e7e6''"]
  note i2 = oracle_exceptions_read_and_write
    [where sf = stub_sf and pb = "XiangqiPyffishBoard_init stub_sf (Some fen_after_e4e5)"
       and e = ?u and er = ?t and side = "''b''" and move = "XiangqiPyffishMove ''e7e6''"
       and sb = ?sb and legal = "[''e7e6'']" and fen' = fen_after_e7e6 and retry_ms = "[]"
       and mv = "''e7e6''"]
  note i3 = oracle_exceptions_read_and_write
    [where sf = two_arg_sf and pb = "XiangqiPyffishBoard_init two_arg_sf (Some fen_black_mates)"
       and e = "OracleError ''legal_moves takes two arguments''" and er = ?t
       and side = "''b''" and move = "XiangqiPyffishMove ''b3b1''"
       and sb = ?sb and legal = "[''b3b1'', ''a2a1'']" and fen' = fen_red_mated and retry_ms = "[]"
       and mv = "''e7e6''"]
  note i4 = oracle_exceptions_read_and_write
    [where sf = stub_sf and pb = "XiangqiPyffishBoard_init stub_sf None"
       and e = ?u and er = ?t and side = "''w''" and move = "XiangqiPyffishMove ''h3h10''"
       and sb = ?sb and legal = "[''h3h10'', ''e4e5'']" and fen' = fen_after_e7e6
       and retry_ms = "[]" and mv = "''e7e6''"]
  show ?thesis
    using i1 i2 i3 i4
    by (simp add: stub_boards stub_sf_calls two_arg_sf_calls fen_sides
        legal_moves_with_fallback_def SimpleXiangqiBoard_get_legal_moves_def)
qed

subsection \<open>Game over\<close>

lemma ChessBoard_get_result_empty:
  "(ChessBoard_get_result L cb = None) = (\<not> ChessBoard_is_game_over L cb)"
  by (simp add: ChessBoard_get_result_def split: option.split)

lemma ChessBoard_done_is_game_over:
  "ChessBoard_apply_move L cb m = (Inr (reward, game_over), cb') \<Longrightarrow>
   game_over = ChessBoard_is_game_over L cb'"
  by (auto simp: ChessBoard_apply_move_def ChessBoard_is_game_over_def Let_def
      split: if_splits option.splits)

lemma ChessBoard_no_moves_game_over:
  assumes "\<forall>p. pc_legal_moves L p = [] \<longrightarrow> pc_is_game_over L p"
    and "ChessBoard_get_legal_moves L cb None = []"
  shows "ChessBoard_is_game_over L cb"
  using assms by (simp add: ChessBoard_get_legal_moves_def ChessBoard_is_game_over_def)

lemma XiangqiPyffishBoard_empty_moves_game_over:
  assumes "sf_legal_moves3 sf (pb_variant pb) (pb_current_fen pb) = Inr ms"
  shows "XiangqiPyffishBoard_is_game_over sf pb = (ms = [])"
    and "XiangqiPyffishBoard_get_legal_moves sf pb None = Inr [] \<Longrightarrow>
         XiangqiPyffishBoard_is_game_over sf pb"
  using assms
  by (auto simp: XiangqiPyffishBoard_is_game_over_def XiangqiPyffishBoard_get_legal_moves_def
      legal_moves_with_fallback_def ebind_def split: sum.splits)

lemma XiangqiPyffishBoard_get_result_live:
  "\<not> XiangqiPyffishBoard_is_game_over sf pb \<Longrightarrow>
   XiangqiPyffishBoard_get_result sf pb =
     (\<lparr>gr_winner = None, gr_termination = None, gr_moves = None\<rparr>, pb)"
  by (simp add: XiangqiPyffishBoard_get_result_def)

lemma XiangqiPyffishBoard_get_result_over:
  "XiangqiPyffishBoard_is_game_over sf pb \<Longrightarrow> pb_result pb = None \<Longrightarrow>
   gr_winner (fst (XiangqiPyffishBoard_get_result sf pb)) \<noteq> None"
  by (simp add: XiangqiPyffishBoard_get_result_def Let_def split: sum.split)

lemma SimpleXiangqiBoard_empty_moves_game_over:
  assumes "sf_legal_moves3 sf (sb_variant sb) (sb_current_fen sb) = Inr ms"
  shows "SimpleXiangqiBoard_get_legal_moves sf sb = ms"
    and "SimpleXiangqiBoard_is_game_over sf sb = (ms = [])"
  using assms
  by (simp_all add: SimpleXiangqiBoard_get_legal_moves_def SimpleXiangqiBoard_is_game_over_def)

lemma SimpleXiangqiBoard_get_result_live:
  "\<not> SimpleXiangqiBoard_is_game_over sf sb \<Longrightarrow>
   SimpleXiangqiBoard_get_result sf sb =
     Inr \<lparr>gr_winner = None, gr_termination = None, gr_moves = None\<rparr>"
  by (simp add: SimpleXiangqiBoard_get_result_def)

lemma SimpleXiangqiBoard_get_result_over:
  "SimpleXiangqiBoard_is_game_over sf sb \<Longrightarrow> fen_side_field (sb_current_fen sb) = Inr side \<Longrightarrow>
   SimpleXiangqiBoard_get_result sf sb =
     Inr \<lparr>gr_winner = Some (if side = ''w'' then ''black'' else ''red''),
          gr_termination = Some ''checkmate'', gr_moves = None\<rparr>"
  by (simp add: SimpleXiangqiBoard_get_result_def ebind_def Let_def)

text \<open>
  Claim C7, as amended. For \<open>ChessBoard\<close>, with a chess library in which a position without
  legal moves is over (checkmate or stalemate, as in python-chess): an empty
  \<open>get_legal_moves()\<close> implies \<open>is_game_over()\<close>, \<open>get_result()\<close> is empty exactly when
  \<open>is_game_over()\<close> is false, and the \<open>done\<close> flag of \<open>apply_move\<close> is \<open>is_game_over()\<close> of the
  board it leaves. For \<open>XiangqiPyffishBoard\<close> and \<open>SimpleXiangqiBoard\<close>: whenever the oracle's
  three-argument legal-move call returns a list, \<open>is_game_over()\<close> is true exactly when that
  list is empty, so an empty \<open>get_legal_moves()\<close> implies \<open>is_game_over()\<close>; \<open>get_result()\<close>
  carries no winner while \<open>is_game_over()\<close> is false, and names a winner when it is true
  (for \<open>XiangqiPyffishBoard\<close> when no result is stored yet, for \<open>SimpleXiangqiBoard\<close> when the
  FEN has a side field). The native \<open>XiangqiBoard\<close> is a placeholder: \<open>get_legal_moves()\<close>
  is always empty, \<open>is_game_over()\<close> always False and \<open>get_result()\<close> always empty. No
  \<open>is_game_over\<close> raises: each is a total function of the board.
\<close>

theorem is_game_over_agreement:
  assumes "\<forall>p. pc_legal_moves L p = [] \<longrightarrow> pc_is_game_over L p"
  shows
  "(ChessBoard_get_legal_moves L cb None = [] \<longrightarrow> ChessBoard_is_game_over L cb) \<and>
   (ChessBoard_get_result L cb = None) = (\<not> ChessBoard_is_game_over L cb) \<and>
   (ChessBoard_apply_move L cb m = (Inr (reward, game_over), cb') \<longrightarrow>
      game_over = ChessBoard_is_game_over L cb') \<and>
   (sf_legal_moves3 sf (pb_variant pb) (pb_current_fen pb) = Inr ms \<longrightarrow>
      XiangqiPyffishBoard_is_game_over sf pb = (ms = []) \<and>
      (XiangqiPyffishBoard_get_legal_moves sf pb None = Inr [] \<longrightarrow>
         XiangqiPyffishBoard_is_game_over sf pb)) \<and>
   (\<not> XiangqiPyffishBoard_is_game_over sf pb \<longrightarrow>
      XiangqiPyffishBoard_get_result sf pb =
        (\<lparr>gr_winner = None, gr_termination = None, gr_moves = None\<rparr>, pb)) \<and>
   (XiangqiPyffishBoard_is_game_over sf pb \<and> pb_result pb = None \<longrightarrow>
      gr_winner (fst (XiangqiPyffishBoard_get_result sf pb)) \<noteq> None) \<and>
   (sf_legal_moves3 sf (sb_variant sb) (sb_current_fen sb) = Inr ms' \<longrightarrow>
      SimpleXiangqiBoard_get_legal_moves sf sb = ms' \<and>
      SimpleXiangqiBoard_is_game_over sf sb = (ms' = [])) \<and>
   (\<not> SimpleXiangqiBoard_is_game_over sf sb \<longrightarrow>
      SimpleXiangqiBoard_get_result sf sb =
        Inr \<lparr>gr_winner = None, gr_termination = None, gr_moves = None\<rparr>) \<and>
   (SimpleXiangqiBoard_is_game_over sf sb \<and> fen_side_field (sb_current_fen sb) = Inr side \<longrightarrow>
      SimpleXiangqiBoard_get_result sf sb =
        Inr \<lparr>gr_winner = Some (if side = ''w'' then ''black'' else ''red''),
             gr_termination = Some ''checkmate'', gr_moves = None\<rparr>) \<and>
   \<not> XiangqiBoard_is_game_over xb \<and> XiangqiBoard_get_result xb = None \<and>
   XiangqiBoard_get_legal_moves xb player = []"
proof -
  have n: "\<not> XiangqiBoard_is_game_over xb \<and> XiangqiBoard_get_result xb = None \<and>
      XiangqiBoard_get_legal_moves xb player = []"
    by (simp add: XiangqiBoard_is_game_over_def XiangqiBoard_get_result_def
        XiangqiBoard_no_legal_moves)
  show ?thesis
    using n ChessBoard_no_moves_game_over [OF assms, of cb]
      ChessBoard_get_result_empty [of L cb]
      ChessBoard_done_is_game_over [of L cb m reward game_over cb']
      XiangqiPyffishBoard_empty_moves_game_over [of sf pb ms]
      XiangqiPyffishBoard_get_result_live [of sf pb]
      XiangqiPyffishBoard_get_result_over [of sf pb]
      SimpleXiangqiBoard_empty_moves_game_over [of sf sb ms']
      SimpleXiangqiBoard_get_result_live [of sf sb]
      SimpleXiangqiBoard_get_result_over [of sf sb side]
    by blast
qed

text \<open>
  The claim as stated fails on the native \<open>XiangqiBoard\<close>: right after \<open>reset\<close> it has no
  legal moves, and \<open>is_game_over\<close> is False.
\<close>

theorem stub_board_no_moves_not_over_counterexample:
  "XiangqiBoard_get_legal_moves (XiangqiBoard_reset XiangqiBoard_init) None = [] \<and>
   \<not> XiangqiBoard_is_game_over (XiangqiBoard_reset XiangqiBoard_init)"
  by (simp add: XiangqiBoard_no_legal_moves XiangqiBoard_is_game_over_def)

lemma stub_chess_no_moves_over:
  "\<forall>p. pc_legal_moves stub_chess p = [] \<longrightarrow> pc_is_game_over stub_chess p"
  by (simp add: stub_chess_def)

theorem is_game_over_agreement_witness:
  "ChessBoard_get_legal_moves stub_chess
      \<lparr>cb_board = 3, cb_move_history = [''e2e4'', ''d2d4'', ''e2e4''], cb_result = None\<rparr> None = [] \<and>
   ChessBoard_is_game_over stub_chess
      \<lparr>cb_board = 3, cb_move_history = [''e2e4'', ''d2d4'', ''e2e4''], cb_result = None\<rparr> \<and>
   XiangqiPyffishBoard_is_game_over stub_sf
      \<lparr>pb_variant = ''xiangqi'', pb_current_fen = fen_red_mated, pb_move_history = [''b3b1''],
       pb_result = None\<rparr> \<and>
   gr_winner (fst (XiangqiPyffishBoard_get_result stub_sf
      \<lparr>pb_variant = ''xiangqi'', pb_current_fen = fen_red_mated, pb_move_history = [''b3b1''],
       pb_result = None\<rparr>)) \<noteq> None \<and>
   SimpleXiangqiBoard_get_result stub_sf
      \<lparr>sb_variant = ''xiangqi'', sb_current_fen = fen_red_mated, sb_move_history = [''b3b1''],
       sb_result = None\<rparr>
     = Inr \<lparr>gr_winner = Some ''black'', gr_termination = Some ''checkmate'', gr_moves = None\<rparr> \<and>
   \<not> XiangqiPyffishBoard_is_game_over stub_sf (XiangqiPyffishBoard_init stub_sf None) \<and>
   XiangqiPyffishBoard_get_result stub_sf (XiangqiPyffishBoard_init stub_sf None) =
     (\<lparr>gr_winner = None, gr_termination = None, gr_moves = None\<rparr>,
      XiangqiPyffishBoard_init stub_sf None) \<and>
   SimpleXiangqiBoard_get_result stub_sf
      \<lparr>sb_variant = ''xiangqi'', sb_current_fen = fen_start, sb_move_history = [],
       sb_result = None\<rparr>
     = Inr \<lparr>gr_winner = None, gr_termination = None, gr_moves = None\<rparr>"
proof -
  let ?cb = "\<lparr>cb_board = 3, cb_move_history = [''e2e4'', ''d2d4'', ''e2e4''], cb_result = None\<rparr>
      :: (nat, string) ChessBoard"
  note i1 = is_game_over_agreement [OF stub_chess_no_moves_over,
      where cb = ?cb and m = "''e2e4''" and reward = 0 and game_over = False and cb' = ?cb
        and sf = stub_sf and ms = "[]"
        and pb = "\<lparr>pb_variant = ''xiangqi'', pb_current_fen = fen_red_mated,
                   pb_move_history = [''b3b1''], pb_result = None\<rparr>"
        and sb = "\<lparr>sb_variant = ''xiangqi'', sb_current_fen = fen_red_mated,
                   sb_move_history = [''b3b1''], sb_result = None\<rparr>"
        and ms' = "[]" and side = "''w''" and xb = XiangqiBoard_init and player = None]
  note i2 = is_game_over_agreement [OF stub_chess_no_moves_over,
      where cb = ?cb and m = "''e2e4''" and reward = 0 and game_over = False and cb' = ?cb
        and sf = stub_sf and ms = "[''h3h10'', ''e4e5'']"
        and pb = "XiangqiPyffishBoard_init stub_sf None"
        and sb = "\<lparr>sb_variant = ''xiangqi'', sb_current_fen = fen_start,
                   sb_move_history = [], sb_result = None\<rparr>"
        and ms' = "[''h3h10'', ''e4e5'']" and side = "''w''" and xb = XiangqiBoard_init
        and player = None]
  show ?thesis
    using i1 i2
    by (simp add: stub_boards stub_sf_calls fen_sides ChessBoard_get_legal_moves_def
        stub_chess_def)
qed

subsection \<open>The side to move\<close>




























section \<open>Properties of the observation arrays\<close>


lemma sum_list_update_real:
  fixes xs :: "real list"
  shows "k < length xs \<Longrightarrow> sum_list (xs[k := v]) = sum_list xs - xs ! k + v"
proof (induction xs arbitrary: k)
  case Nil
  then show ?case by simp
next
  case (Cons x xs)
  then show ?case by (cases k) auto
qed

lemma np_zeros3_dims: "tensor_dims (np_zeros3 P R C) P R C"
  by (simp add: tensor_dims_def np_zeros3_def)

lemma np_zeros3_at: "p < P \<Longrightarrow> r < R \<Longrightarrow> c < C \<Longrightarrow> np_zeros3 P R C ! p ! r ! c = 0"
  by (simp add: np_zeros3_def)

lemma np_zeros3_sum: "tensor_sum (np_zeros3 P R C) = 0"
proof -
  have z: "\<And>n. sum_list (replicate n (0::real)) = 0" by (simp add: sum_list_replicate)
  show ?thesis by (simp add: tensor_sum_def np_zeros3_def sum_list_replicate z)
qed

lemma np_zeros3_entries: "tensor_entries (np_zeros3 P R C) \<subseteq> {0, 1}"
  by (auto simp: tensor_entries_def np_zeros3_def)

lemma tensor_set_cases:
  assumes "tensor_dims a P R C"
  shows "tensor_set a p r c v =
     (if p < P \<and> r < R \<and> c < C
      then Inr (a[p := (a ! p)[r := (a ! p ! r)[c := v]]]) else Inl IndexError)"
  using assms by (auto simp: tensor_set_def tensor_dims_def)

lemma tensor_set_dims:
  assumes "tensor_dims a P R C" "tensor_set a p r c v = Inr a'"
  shows "tensor_dims a' P R C"
proof -
  from assms have a': "a' = a[p := (a ! p)[r := (a ! p ! r)[c := v]]]"
    and b: "p < P" "r < R" "c < C"
    by (auto simp: tensor_set_cases split: if_splits)
  show ?thesis
    using assms(1) b unfolding a' tensor_dims_def
    by (auto simp: nth_list_update)
qed

lemma tensor_set_at:
  assumes "tensor_dims a P R C" "tensor_set a p r c v = Inr a'"
    and "p' < P" "r' < R" "c' < C"
  shows "a' ! p' ! r' ! c' = (if p' = p \<and> r' = r \<and> c' = c then v else a ! p' ! r' ! c')"
proof -
  from assms have a': "a' = a[p := (a ! p)[r := (a ! p ! r)[c := v]]]"
    and b: "p < P" "r < R" "c < C"
    by (auto simp: tensor_set_cases split: if_splits)
  show ?thesis
    using assms(1,3-5) b unfolding a' tensor_dims_def
    by (auto simp: nth_list_update)
qed

lemma tensor_set_sum:
  assumes "tensor_set a p r c v = Inr a'"
  shows "tensor_sum a' = tensor_sum a - a ! p ! r ! c + v"
proof -
  from assms have a': "a' = a[p := (a ! p)[r := (a ! p ! r)[c := v]]]"
    and b: "p < length a" "r < length (a ! p)" "c < length (a ! p ! r)"
    by (auto simp: tensor_set_def split: if_splits)
  let ?g = "\<lambda>plane. sum_list (map sum_list plane)"
  have row: "sum_list ((a ! p ! r)[c := v]) = sum_list (a ! p ! r) - a ! p ! r ! c + v"
    using b(3) by (rule sum_list_update_real)
  have plane: "?g ((a ! p)[r := (a ! p ! r)[c := v]])
      = ?g (a ! p) - sum_list (a ! p ! r) + sum_list ((a ! p ! r)[c := v])"
    using b(2) by (simp add: map_update sum_list_update_real)
  have "tensor_sum a' = tensor_sum a - ?g (a ! p) + ?g ((a ! p)[r := (a ! p ! r)[c := v]])"
    unfolding a' tensor_sum_def using b(1) by (simp add: map_update sum_list_update_real)
  then show ?thesis using row plane by simp
qed

lemma tensor_set_entries:
  assumes "tensor_set a p r c v = Inr a'"
  shows "tensor_entries a' \<subseteq> insert v (tensor_entries a)"
proof
  fix x assume "x \<in> tensor_entries a'"
  from assms have a': "a' = a[p := (a ! p)[r := (a ! p ! r)[c := v]]]"
    and b: "p < length a" "r < length (a ! p)" "c < length (a ! p ! r)"
    by (auto simp: tensor_set_def split: if_splits)
  from \<open>x \<in> tensor_entries a'\<close> obtain plane row where
    pl: "plane \<in> set a'" and ro: "row \<in> set plane" and x: "x \<in> set row"
    by (auto simp: tensor_entries_def)
  from pl have "plane \<in> insert ((a ! p)[r := (a ! p ! r)[c := v]]) (set a)"
    unfolding a' using set_update_subset_insert by fastforce
  then consider "plane \<in> set a" | "plane = (a ! p)[r := (a ! p ! r)[c := v]]" by auto
  then show "x \<in> insert v (tensor_entries a)"
  proof cases
    case 1
    then show ?thesis using ro x by (auto simp: tensor_entries_def)
  next
    case 2
    then have "row \<in> insert ((a ! p ! r)[c := v]) (set (a ! p))"
      using ro set_update_subset_insert by fastforce
    then consider "row \<in> set (a ! p)" | "row = (a ! p ! r)[c := v]" by auto
    then show ?thesis
    proof cases
      case 1
      moreover have "a ! p \<in> set a" using b(1) by simp
      ultimately show ?thesis using x unfolding tensor_entries_def by blast
    next
      case 2
      then have "x \<in> insert v (set (a ! p ! r))"
        using x set_update_subset_insert by fastforce
      moreover have "a ! p \<in> set a" "a ! p ! r \<in> set (a ! p)"
        using b(1,2) by simp_all
      ultimately show ?thesis unfolding tensor_entries_def by blast
    qed
  qed
qed

lemma PIECE_TO_PLANE_bound: "PIECE_TO_PLANE piece < 12"
  by (cases piece rule: PIECE_TO_PLANE.cases) simp_all

lemma square_cell_inj:
  fixes s s' :: nat
  assumes "s < 64" "s' < 64" "7 - s div 8 = 7 - s' div 8" "s mod 8 = s' mod 8"
  shows "s = s'"
proof -
  have "s div 8 \<le> 7" "s' div 8 \<le> 7" using assms(1,2) by auto
  then have "s div 8 = s' div 8" using assms(3) by linarith
  then have "8 * (s div 8) + s mod 8 = 8 * (s' div 8) + s' mod 8" using assms(4) by simp
  then show ?thesis by (simp only: mult_div_mod_eq)
qed

lemma chess_observe_squares_sum:
  assumes "tensor_dims a 12 8 8" "distinct sqs" "\<forall>s \<in> set sqs. s < 64"
    and "\<forall>s \<in> set sqs. \<forall>p < 12. a ! p ! (7 - s div 8) ! (s mod 8) = 0"
    and "tensor_entries a \<subseteq> {0, 1}"
  shows "\<exists>a'. chess_observe_squares L pos a sqs = Inr a' \<and> tensor_dims a' 12 8 8
     \<and> tensor_entries a' \<subseteq> {0, 1}
     \<and> tensor_sum a' = tensor_sum a
          + real (length (filter (\<lambda>s. pc_piece_at L pos s \<noteq> None) sqs))"
  using assms
proof (induction sqs arbitrary: a)
  case Nil
  then show ?case by simp
next
  case (Cons s sqs)
  have s: "s < 64" "s \<notin> set sqs" and d: "distinct sqs" and b: "\<forall>t \<in> set sqs. t < 64"
    using Cons.prems(2,3) by auto
  show ?case
  proof (cases "pc_piece_at L pos s")
    case None
    have "\<forall>t \<in> set sqs. \<forall>p < 12. a ! p ! (7 - t div 8) ! (t mod 8) = 0"
      using Cons.prems(4) by simp
    from Cons.IH [OF Cons.prems(1) d b this Cons.prems(5)] None
    show ?thesis by (simp add: chess_observe_square_def)
  next
    case (Some piece)
    let ?p = "PIECE_TO_PLANE piece" and ?r = "7 - s div 8" and ?c = "s mod 8"
    have rng: "?p < 12" "?r < 8" "?c < 8"
      using PIECE_TO_PLANE_bound by auto
    obtain a1 where a1: "tensor_set a ?p ?r ?c 1 = Inr a1"
      using rng by (simp add: tensor_set_cases [OF Cons.prems(1)])
    have step: "chess_observe_square L pos a s = Inr a1"
      using Some a1 by (simp add: chess_observe_square_def)
    have dims1: "tensor_dims a1 12 8 8" using tensor_set_dims [OF Cons.prems(1) a1] .
    have ent1: "tensor_entries a1 \<subseteq> {0, 1}"
      using tensor_set_entries [OF a1] Cons.prems(5) by auto
    have old: "a ! ?p ! ?r ! ?c = 0" using Cons.prems(4) rng(1) by simp
    have sum1: "tensor_sum a1 = tensor_sum a + 1"
      using tensor_set_sum [OF a1] old by simp
    have zero1: "\<forall>t \<in> set sqs. \<forall>p < 12. a1 ! p ! (7 - t div 8) ! (t mod 8) = 0"
    proof (intro ballI allI impI)
      fix t p assume t: "t \<in> set sqs" and p: "p < (12::nat)"
      have t64: "t < 64" using b t by simp
      have ne: "\<not> (7 - t div 8 = ?r \<and> t mod 8 = ?c)"
        using square_cell_inj [OF t64 s(1)] t s(2) by auto
      have "a1 ! p ! (7 - t div 8) ! (t mod 8) = a ! p ! (7 - t div 8) ! (t mod 8)"
        using tensor_set_at [OF Cons.prems(1) a1 p, of "7 - t div 8" "t mod 8"] ne by auto
      then show "a1 ! p ! (7 - t div 8) ! (t mod 8) = 0"
        using Cons.prems(4) t p by simp
    qed
    from Cons.IH [OF dims1 d b zero1 ent1] step Some sum1
    show ?thesis by auto
  qed
qed

lemma ChessBoard_to_observation_sum:
  "\<exists>t. ChessBoard_to_observation L cb = Inr t \<and> tensor_dims t 12 8 8
     \<and> tensor_entries t \<subseteq> {0, 1}
     \<and> tensor_sum t = real (chess_piece_count L (cb_board cb))"
proof -
  have z: "\<forall>s \<in> set [0..<64]. \<forall>p < 12. np_zeros3 12 8 8 ! p ! (7 - s div 8) ! (s mod 8) = 0"
  proof (intro ballI allI impI)
    fix s p :: nat assume "p < 12"
    then show "np_zeros3 12 8 8 ! p ! (7 - s div 8) ! (s mod 8) = 0"
      by (intro np_zeros3_at) auto
  qed
  have b: "\<forall>s \<in> set [0..<64]. s < (64::nat)" by (simp del: upt_rec_numeral)
  from chess_observe_squares_sum [OF np_zeros3_dims distinct_upt b z np_zeros3_entries,
      of L "cb_board cb"]
  show ?thesis
    unfolding ChessBoard_to_observation_def np_zeros3_sum chess_piece_count_def
    by (simp del: upt_rec_numeral)
qed

lemma all_cells_product: "all_cells = List.product [0..<10] [0..<9]"
  unfolding all_cells_def by (simp only: product_concat_map)

lemma all_cells_distinct: "distinct all_cells"
  unfolding all_cells_product by (intro distinct_product distinct_upt)

lemma all_cells_bound: "\<forall>rc \<in> set all_cells. fst rc < 10 \<and> snd rc < 9"
  unfolding all_cells_product by (auto simp del: upt_rec_numeral)

lemma grid_ok_at:
  assumes "grid_ok g" "r < 10" "c < 9"
  shows "- 7 \<le> g ! r ! c \<and> g ! r ! c \<le> 7"
proof -
  have "g ! r \<in> set g" using assms(1,2) by (simp add: grid_ok_def)
  then have "length (g ! r) = 9" "\<forall>v \<in> set (g ! r). - 7 \<le> v \<and> v \<le> 7"
    using assms(1) by (auto simp: grid_ok_def)
  then show ?thesis using assms(3) nth_mem by metis
qed

lemma xiangqi_observe_cells_sum:
  assumes "tensor_dims a 14 10 9" "distinct cells" "\<forall>rc \<in> set cells. fst rc < 10 \<and> snd rc < 9"
    and "\<forall>rc \<in> set cells. \<forall>p < 14. a ! p ! fst rc ! snd rc = 0"
    and "tensor_entries a \<subseteq> {0, 1}" and "grid_ok g"
  shows "\<exists>a'. xiangqi_observe_cells g a cells = Inr a' \<and> tensor_dims a' 14 10 9
     \<and> tensor_entries a' \<subseteq> {0, 1}
     \<and> tensor_sum a' = tensor_sum a
          + real (length (filter (\<lambda>rc. g ! fst rc ! snd rc \<noteq> 0) cells))"
  using assms(1-5)
proof (induction cells arbitrary: a)
  case Nil
  then show ?case by simp
next
  case (Cons rc cells)
  obtain r c where rc: "rc = (r, c)" by (cases rc)
  have s: "r < 10" "c < 9" "rc \<notin> set cells" and d: "distinct cells"
    and b: "\<forall>t \<in> set cells. fst t < 10 \<and> snd t < 9"
    using Cons.prems(2,3) rc by auto
  have len: "length a = 14" using Cons.prems(1) by (simp add: tensor_dims_def)
  show ?case
  proof (cases "g ! r ! c = 0")
    case True
    have "\<forall>t \<in> set cells. \<forall>p < 14. a ! p ! fst t ! snd t = 0"
      using Cons.prems(4) by simp
    from Cons.IH [OF Cons.prems(1) d b this Cons.prems(5)] True rc
    show ?thesis by (simp add: xiangqi_observe_cell_def)
  next
    case False
    let ?piece = "g ! r ! c"
    let ?plane = "if ?piece > 0 then \<bar>?piece\<bar> - 1 else \<bar>?piece\<bar> + 6"
    have bnd: "- 7 \<le> ?piece \<and> ?piece \<le> 7" using grid_ok_at [OF assms(6) s(1,2)] .
    have pl: "0 \<le> ?plane" "?plane < 14" using bnd False by auto
    then have norm: "np_norm (length a) ?plane = Inr (nat ?plane)"
      by (simp add: np_norm_def len)
    have rng: "nat ?plane < 14" using pl by auto
    obtain a1 where a1: "tensor_set a (nat ?plane) r c 1 = Inr a1"
      using rng s(1,2) by (simp add: tensor_set_cases [OF Cons.prems(1)])
    have step: "xiangqi_observe_cell g a rc = Inr a1"
      using False a1 norm rc by (simp add: xiangqi_observe_cell_def Let_def ebind_def)
    have dims1: "tensor_dims a1 14 10 9" using tensor_set_dims [OF Cons.prems(1) a1] .
    have ent1: "tensor_entries a1 \<subseteq> {0, 1}"
      using tensor_set_entries [OF a1] Cons.prems(5) by auto
    have old: "a ! nat ?plane ! r ! c = 0" using Cons.prems(4) rng rc by simp
    have sum1: "tensor_sum a1 = tensor_sum a + 1"
      using tensor_set_sum [OF a1] old by simp
    have zero1: "\<forall>t \<in> set cells. \<forall>p < 14. a1 ! p ! fst t ! snd t = 0"
    proof (intro ballI allI impI)
      fix t p assume t: "t \<in> set cells" and p: "p < (14::nat)"
      have tb: "fst t < 10" "snd t < 9" using b t by auto
      have ne: "\<not> (fst t = r \<and> snd t = c)" using t s(3) rc by (cases t) auto
      have "a1 ! p ! fst t ! snd t = a ! p ! fst t ! snd t"
        using tensor_set_at [OF Cons.prems(1) a1 p tb] ne by auto
      then show "a1 ! p ! fst t ! snd t = 0"
        using Cons.prems(4) t p by simp
    qed
    from Cons.IH [OF dims1 d b zero1 ent1] step False sum1 rc
    show ?thesis by auto
  qed
qed

lemma grid_cells_concat:
  assumes "length g = 10" "\<forall>row \<in> set g. length row = 9"
  shows "map (\<lambda>rc. g ! fst rc ! snd rc) all_cells = concat g"
proof -
  have inner: "map (\<lambda>c. g ! r ! c) [0..<9] = g ! r" if "r < 10" for r
  proof -
    have "length (g ! r) = 9" using assms that by simp
    then show ?thesis using map_nth [of "g ! r"] by simp
  qed
  have "map (\<lambda>rc. g ! fst rc ! snd rc) all_cells
      = concat (map (\<lambda>r. map (\<lambda>c. g ! r ! c) [0..<9]) [0..<10])"
    unfolding all_cells_def by (simp add: map_concat comp_def del: upt_rec_numeral)
  also have "map (\<lambda>r. map (\<lambda>c. g ! r ! c) [0..<9]) [0..<10] = map (\<lambda>r. g ! r) [0..<10]"
    by (rule map_cong) (auto simp: inner simp del: upt_rec_numeral)
  also have "map (\<lambda>r. g ! r) [0..<10] = g"
    using map_nth [of g] assms(1) by simp
  finally show ?thesis .
qed

lemma grid_piece_count_cells:
  assumes "grid_ok g"
  shows "length (filter (\<lambda>rc. g ! fst rc ! snd rc \<noteq> 0) all_cells) = grid_piece_count g"
proof -
  have "map (\<lambda>rc. g ! fst rc ! snd rc) all_cells = concat g"
    using assms by (intro grid_cells_concat) (auto simp: grid_ok_def)
  then have "grid_piece_count g
      = length (filter (\<lambda>v. v \<noteq> 0) (map (\<lambda>rc. g ! fst rc ! snd rc) all_cells))"
    by (simp add: grid_piece_count_def)
  then show ?thesis by (simp add: filter_map comp_def)
qed

lemma XiangqiBoard_to_observation_sum:
  assumes "grid_ok (xb_board b)"
  shows "\<exists>t. XiangqiBoard_to_observation b = Inr t \<and> tensor_dims t 14 10 9
     \<and> tensor_entries t \<subseteq> {0, 1}
     \<and> tensor_sum t = real (grid_piece_count (xb_board b))"
proof -
  have z: "\<forall>rc \<in> set all_cells. \<forall>p < 14. np_zeros3 14 10 9 ! p ! fst rc ! snd rc = 0"
    using all_cells_bound by (auto intro!: np_zeros3_at)
  from xiangqi_observe_cells_sum [OF np_zeros3_dims all_cells_distinct all_cells_bound z
      np_zeros3_entries assms]
  show ?thesis
    unfolding XiangqiBoard_to_observation_def all_cells_def [symmetric]
      grid_piece_count_cells [OF assms] np_zeros3_sum
    by simp
qed

lemma observe_rank_sum:
  assumes "observe_rank off r a f chars = Inr a'"
    and "tensor_dims a 14 10 9" and "tensor_entries a \<subseteq> {0, 1}"
    and "r < 10 \<longrightarrow> (\<forall>p < 14. \<forall>c. f \<le> c \<and> c < 9 \<longrightarrow> a ! p ! r ! c = 0)"
  shows "tensor_dims a' 14 10 9 \<and> tensor_entries a' \<subseteq> {0, 1}
     \<and> tensor_sum a' = tensor_sum a + real (length (filter is_piece_char chars))
     \<and> (\<forall>p < 14. \<forall>r' < 10. \<forall>c < 9. r' \<noteq> r \<longrightarrow> a' ! p ! r' ! c = a ! p ! r' ! c)"
  using assms
proof (induction chars arbitrary: a f)
  case Nil
  then show ?case by simp
next
  case (Cons ch chars)
  show ?case
  proof (cases "py_isdigit ch")
    case True
    with Cons.prems(1) obtain d where d: "int_of_char ch = Inr d"
      and rec: "observe_rank off r a (f + nat d) chars = Inr a'"
      by (auto split: sum.splits)
    have z: "r < 10 \<longrightarrow> (\<forall>p < 14. \<forall>c. f + nat d \<le> c \<and> c < 9 \<longrightarrow> a ! p ! r ! c = 0)"
      using Cons.prems(4) by auto
    from Cons.IH [OF rec Cons.prems(2,3) z] True
    show ?thesis by (simp add: is_piece_char_def)
  next
    case False
    show ?thesis
    proof (cases "PIECE_MAPPING ch")
      case None
      with False Cons.prems(1) have rec: "observe_rank off r a (f + 1) chars = Inr a'"
        by simp
      have z: "r < 10 \<longrightarrow> (\<forall>p < 14. \<forall>c. f + 1 \<le> c \<and> c < 9 \<longrightarrow> a ! p ! r ! c = 0)"
        using Cons.prems(4) by auto
      from Cons.IH [OF rec Cons.prems(2,3) z] False None
      show ?thesis by (simp add: is_piece_char_def)
    next
      case (Some ki)
      obtain kind is_red where ki: "ki = (kind, is_red)" by (cases ki)
      let ?plane = "if is_red then kind else kind + off"
      from Some ki False Cons.prems(1) obtain a1 where
        a1: "tensor_set a ?plane r f 1 = Inr a1"
        and rec: "observe_rank off r a1 (f + 1) chars = Inr a'"
        by (auto simp: Let_def split: sum.splits)
      have rng: "?plane < 14" "r < 10" "f < 9"
        using a1 tensor_set_cases [OF Cons.prems(2), of ?plane r f 1]
        by (auto split: if_splits)
      have dims1: "tensor_dims a1 14 10 9" using tensor_set_dims [OF Cons.prems(2) a1] .
      have ent1: "tensor_entries a1 \<subseteq> {0, 1}"
        using tensor_set_entries [OF a1] Cons.prems(3) by auto
      have old: "a ! ?plane ! r ! f = 0" using Cons.prems(4) rng by simp
      have sum1: "tensor_sum a1 = tensor_sum a + 1"
        using tensor_set_sum [OF a1] old by simp
      have at1: "a1 ! p ! r' ! c = (if p = ?plane \<and> r' = r \<and> c = f then 1 else a ! p ! r' ! c)"
        if "p < 14" "r' < 10" "c < 9" for p r' c
        using tensor_set_at [OF Cons.prems(2) a1 that] .
      have z: "r < 10 \<longrightarrow> (\<forall>p < 14. \<forall>c. f + 1 \<le> c \<and> c < 9 \<longrightarrow> a1 ! p ! r ! c = 0)"
        using Cons.prems(4) at1 rng(2) by auto
      from Cons.IH [OF rec dims1 ent1 z]
      have ih: "tensor_dims a' 14 10 9" "tensor_entries a' \<subseteq> {0, 1}"
        "tensor_sum a' = tensor_sum a1 + real (length (filter is_piece_char chars))"
        "\<forall>p < 14. \<forall>r' < 10. \<forall>c < 9. r' \<noteq> r \<longrightarrow> a' ! p ! r' ! c = a1 ! p ! r' ! c"
        by auto
      have pc: "is_piece_char ch" using False Some by (simp add: is_piece_char_def)
      have other: "\<forall>p < 14. \<forall>r' < 10. \<forall>c < 9. r' \<noteq> r \<longrightarrow> a' ! p ! r' ! c = a ! p ! r' ! c"
        using ih(4) at1 by auto
      show ?thesis using ih(1,2,3) sum1 pc other by simp
    qed
  qed
qed

lemma observe_ranks_sum:
  assumes "observe_ranks off a r ranks = Inr a'"
    and "tensor_dims a 14 10 9" and "tensor_entries a \<subseteq> {0, 1}"
    and "\<forall>p < 14. \<forall>r'. r \<le> r' \<and> r' < 10 \<longrightarrow> (\<forall>c < 9. a ! p ! r' ! c = 0)"
  shows "tensor_dims a' 14 10 9 \<and> tensor_entries a' \<subseteq> {0, 1}
     \<and> tensor_sum a' = tensor_sum a + real (length (filter is_piece_char (concat ranks)))"
  using assms
proof (induction ranks arbitrary: a r)
  case Nil
  then show ?case by simp
next
  case (Cons rank ranks)
  from Cons.prems(1) obtain a1 where
    a1: "observe_rank off r a 0 rank = Inr a1"
    and rec: "observe_ranks off a1 (r + 1) ranks = Inr a'"
    by (auto split: sum.splits)
  have z0: "r < 10 \<longrightarrow> (\<forall>p < 14. \<forall>c. 0 \<le> c \<and> c < 9 \<longrightarrow> a ! p ! r ! c = 0)"
    using Cons.prems(4) by auto
  from observe_rank_sum [OF a1 Cons.prems(2,3) z0]
  have r1: "tensor_dims a1 14 10 9" "tensor_entries a1 \<subseteq> {0, 1}"
    "tensor_sum a1 = tensor_sum a + real (length (filter is_piece_char rank))"
    "\<forall>p < 14. \<forall>r' < 10. \<forall>c < 9. r' \<noteq> r \<longrightarrow> a1 ! p ! r' ! c = a ! p ! r' ! c"
    by auto
  have z1: "\<forall>p < 14. \<forall>r'. r + 1 \<le> r' \<and> r' < 10 \<longrightarrow> (\<forall>c < 9. a1 ! p ! r' ! c = 0)"
    using r1(4) Cons.prems(4) by auto
  from Cons.IH [OF rec r1(1,2) z1] r1(3)
  show ?case by simp
qed

lemma split_on_nonempty: "split_on sep s \<noteq> []"
  by (induction s) (auto split: list.splits)

lemma concat_split_on: "concat (split_on sep s) = filter (\<lambda>c. c \<noteq> sep) s"
proof (induction s)
  case Nil
  then show ?case by simp
next
  case (Cons c s)
  then show ?case
    using split_on_nonempty [of sep s] by (auto split: list.splits)
qed

lemma slash_not_piece: "\<not> is_piece_char CHR ''/''"
  by (simp add: is_piece_char_def PIECE_MAPPING_def)

lemma piece_chars_of_ranks:
  "filter is_piece_char (concat (split_on CHR ''/'' s)) = filter is_piece_char s"
proof -
  have "(\<lambda>c. c \<noteq> CHR ''/'' \<and> is_piece_char c) = is_piece_char"
    using slash_not_piece by auto
  then show ?thesis by (simp add: concat_split_on)
qed

lemma fen_observation_sum:
  assumes "observe_ranks off (np_zeros3 14 10 9) 0 (split_on CHR ''/'' (fen_board_part fen)) = Inr t"
  shows "tensor_dims t 14 10 9 \<and> tensor_entries t \<subseteq> {0, 1}
     \<and> tensor_sum t = real (fen_piece_count fen)"
proof -
  have z: "\<forall>p < 14. \<forall>r'. 0 \<le> r' \<and> r' < 10 \<longrightarrow> (\<forall>c < 9. np_zeros3 14 10 9 ! p ! r' ! c = 0)"
    by (auto intro!: np_zeros3_at)
  have pc: "fen_piece_count fen = length (filter is_piece_char (fen_board_part fen))"
    by (simp only: fen_piece_count_def)
  from observe_ranks_sum [OF assms np_zeros3_dims np_zeros3_entries z]
  show ?thesis by (simp add: np_zeros3_sum piece_chars_of_ranks pc)
qed

lemma SimpleXiangqiBoard_get_observation_sum:
  assumes "SimpleXiangqiBoard_get_observation b = Inr t"
  shows "tensor_dims t 14 10 9 \<and> tensor_entries t \<subseteq> {0, 1}
     \<and> tensor_sum t = real (fen_piece_count (sb_current_fen b))"
  using assms fen_observation_sum [of "7 div 2" "sb_current_fen b" t]
  by (simp only: SimpleXiangqiBoard_get_observation_def Let_def)

lemma XiangqiPyffishBoard_to_observation_sum:
  assumes "XiangqiPyffishBoard_to_observation b = Inr t"
  shows "tensor_dims t 14 10 9 \<and> tensor_entries t \<subseteq> {0, 1}
     \<and> tensor_sum t = real (fen_piece_count (pb_current_fen b))"
  using assms fen_observation_sum [of 7 "pb_current_fen b" t]
  by (simp add: XiangqiPyffishBoard_to_observation_def Let_def)

subsection \<open>The FEN parser returns on a placement that fits the board\<close>

lemma PIECE_MAPPING_kind: "PIECE_MAPPING ch = Some (kind, is_red) \<Longrightarrow> kind < 7"
  by (auto simp: PIECE_MAPPING_def split: if_splits)

lemma ascii_digit_isdigit: "is_ascii_digit ch \<Longrightarrow> py_isdigit ch"
  by (simp add: py_isdigit_def)

lemma observe_rank_dims:
  "observe_rank off r a f chars = Inr a' \<Longrightarrow> tensor_dims a 14 10 9 \<Longrightarrow> tensor_dims a' 14 10 9"
proof (induction chars arbitrary: a f)
  case Nil
  then show ?case by simp
next
  case (Cons ch chars)
  show ?case
  proof (cases "py_isdigit ch")
    case True
    with Cons.prems(1) obtain d where
      "observe_rank off r a (f + nat d) chars = Inr a'"
      by (auto split: sum.splits)
    from Cons.IH [OF this Cons.prems(2)] show ?thesis .
  next
    case False
    show ?thesis
    proof (cases "PIECE_MAPPING ch")
      case None
      with False Cons.prems(1) have "observe_rank off r a (f + 1) chars = Inr a'" by simp
      from Cons.IH [OF this Cons.prems(2)] show ?thesis .
    next
      case (Some ki)
      obtain kind is_red where ki: "ki = (kind, is_red)" by (cases ki)
      from Some ki False Cons.prems(1) obtain a1 where
        a1: "tensor_set a (if is_red then kind else kind + off) r f 1 = Inr a1"
        and rec: "observe_rank off r a1 (f + 1) chars = Inr a'"
        by (auto simp: Let_def split: sum.splits)
      from Cons.IH [OF rec tensor_set_dims [OF Cons.prems(2) a1]] show ?thesis .
    qed
  qed
qed

lemma observe_rank_returns:
  assumes "tensor_dims a 14 10 9" "r < 10" "off \<le> 7"
    and "\<forall>ch \<in> set chars. py_isdigit ch \<longrightarrow> is_ascii_digit ch"
    and "f + rank_width chars \<le> 9"
  shows "\<exists>a'. observe_rank off r a f chars = Inr a'"
  using assms(1,4,5)
proof (induction chars arbitrary: a f)
  case Nil
  then show ?case by simp
next
  case (Cons ch chars)
  have rest: "\<forall>c \<in> set chars. py_isdigit c \<longrightarrow> is_ascii_digit c"
    using Cons.prems(2) by simp
  show ?case
  proof (cases "py_isdigit ch")
    case True
    then have dig: "is_ascii_digit ch" using Cons.prems(2) by simp
    then have d: "int_of_char ch = Inr (ord ch - 48)" by (simp add: int_of_char_def)
    have w: "f + nat (ord ch - 48) + rank_width chars \<le> 9"
      using Cons.prems(3) dig by simp
    from Cons.IH [OF Cons.prems(1) rest w] True d
    show ?thesis by simp
  next
    case False
    then have nd: "\<not> is_ascii_digit ch" using ascii_digit_isdigit by blast
    have w: "f + 1 + rank_width chars \<le> 9" using Cons.prems(3) nd by simp
    show ?thesis
    proof (cases "PIECE_MAPPING ch")
      case None
      from Cons.IH [OF Cons.prems(1) rest w] False None
      show ?thesis by simp
    next
      case (Some ki)
      obtain kind is_red where ki: "ki = (kind, is_red)" by (cases ki)
      let ?plane = "if is_red then kind else kind + off"
      have "kind < 7" using PIECE_MAPPING_kind Some ki by blast
      then have pl: "?plane < 14" using assms(3) by auto
      have f9: "f < 9" using w by simp
      obtain a1 where a1: "tensor_set a ?plane r f 1 = Inr a1"
        using pl assms(2) f9 by (simp add: tensor_set_cases [OF Cons.prems(1)])
      from Cons.IH [OF tensor_set_dims [OF Cons.prems(1) a1] rest w]
      obtain a' where "observe_rank off r a1 (f + 1) chars = Inr a'" by blast
      then show ?thesis using False Some ki a1 by (simp add: Let_def)
    qed
  qed
qed

lemma observe_ranks_returns:
  assumes "off \<le> 7"
  shows "tensor_dims a 14 10 9 \<Longrightarrow> r + length ranks \<le> 10 \<Longrightarrow>
     \<forall>rank \<in> set ranks.
        (\<forall>ch \<in> set rank. py_isdigit ch \<longrightarrow> is_ascii_digit ch) \<and> rank_width rank \<le> 9 \<Longrightarrow>
     \<exists>a'. observe_ranks off a r ranks = Inr a'"
proof (induction ranks arbitrary: a r)
  case Nil
  then show ?case by simp
next
  case (Cons rank ranks)
  have r10: "r < 10" using Cons.prems(2) by simp
  have ok: "\<forall>ch \<in> set rank. py_isdigit ch \<longrightarrow> is_ascii_digit ch" "0 + rank_width rank \<le> 9"
    using Cons.prems(3) by simp_all
  from observe_rank_returns [OF Cons.prems(1) r10 assms ok]
  obtain a1 where a1: "observe_rank off r a 0 rank = Inr a1" by blast
  have d1: "tensor_dims a1 14 10 9" using observe_rank_dims [OF a1 Cons.prems(1)] .
  have l: "r + 1 + length ranks \<le> 10" using Cons.prems(2) by simp
  have rest: "\<forall>rk \<in> set ranks.
        (\<forall>ch \<in> set rk. py_isdigit ch \<longrightarrow> is_ascii_digit ch) \<and> rank_width rk \<le> 9"
    using Cons.prems(3) by simp
  from Cons.IH [OF d1 l rest] a1 show ?case by simp
qed

lemma fen_observation_returns:
  assumes "fen_fits_board fen" "off \<le> 7"
  shows "\<exists>t. observe_ranks off (np_zeros3 14 10 9) 0 (split_on CHR ''/'' (fen_board_part fen))
     = Inr t"
  using assms(1) observe_ranks_returns [OF assms(2) np_zeros3_dims,
      of 0 "split_on CHR ''/'' (fen_board_part fen)"]
  by (simp add: fen_fits_board_def Let_def)

lemma XiangqiPyffishBoard_to_observation_total:
  assumes "fen_fits_board (pb_current_fen b)"
  shows "\<exists>t. XiangqiPyffishBoard_to_observation b = Inr t \<and> tensor_dims t 14 10 9
     \<and> tensor_entries t \<subseteq> {0, 1}
     \<and> tensor_sum t = real (fen_piece_count (pb_current_fen b))"
proof -
  from fen_observation_returns [OF assms, of 7]
  obtain t where "XiangqiPyffishBoard_to_observation b = Inr t"
    by (auto simp: XiangqiPyffishBoard_to_observation_def Let_def)
  then show ?thesis using XiangqiPyffishBoard_to_observation_sum by blast
qed

lemma SimpleXiangqiBoard_get_observation_total:
  assumes "fen_fits_board (sb_current_fen b)"
  shows "\<exists>t. SimpleXiangqiBoard_get_observation b = Inr t \<and> tensor_dims t 14 10 9
     \<and> tensor_entries t \<subseteq> {0, 1}
     \<and> tensor_sum t = real (fen_piece_count (sb_current_fen b))"
proof -
  from fen_observation_returns [OF assms, of "7 div 2"]
  obtain t where "SimpleXiangqiBoard_get_observation b = Inr t"
    by (auto simp: SimpleXiangqiBoard_get_observation_def Let_def)
  then show ?thesis using SimpleXiangqiBoard_get_observation_sum by blast
qed

lemma reset_grid_ok: "grid_ok (xb_board (XiangqiBoard_reset b))"
  by (simp add: XiangqiBoard_reset_def initial_grid grid_ok_def)

lemma reset_grid_count: "grid_piece_count (xb_board (XiangqiBoard_reset b)) = 32"
  by (simp add: XiangqiBoard_reset_def initial_grid grid_piece_count_def)

lemma stub_fens_fit:
  "fen_fits_board fen_start" "fen_fits_board fen_after_e4e5" "fen_fits_board fen_red_mated"
  by code_simp+

lemma stub_fens_count:
  "fen_piece_count fen_start = 32" "fen_piece_count fen_after_e4e5 = 32"
  "fen_piece_count fen_red_mated = 4"
  by code_simp+

text \<open>
  Claim C9. \<open>to_observation\<close> is a function of the position alone (the library position of
  \<open>ChessBoard\<close>, the FEN of \<open>XiangqiPyffishBoard\<close>, the grid of \<open>XiangqiBoard\<close>), so two calls
  on an unchanged board give the same array. Every entry of the array is 0.0 or 1.0, and
  the sum of all entries is the number of pieces on the board: the occupied squares of the
  chess position, the piece letters of the FEN's placement field, the non-zero cells of the
  grid.

  \<open>ChessBoard.to_observation\<close> always returns. \<open>XiangqiPyffishBoard.to_observation\<close> and
  \<open>SimpleXiangqiBoard.get_observation\<close> return such an array for every FEN whose placement
  field fits the board of 10 ranks and 9 files, as the FENs of the oracle do; on other
  FENs numpy may raise, and whenever the call returns the array is as described. The
  native board returns on every grid the program can build, which after \<open>reset\<close> is the only
  one it ever holds. The sums are at most 90, so they are exact in \<open>float32\<close> as they are in
  the reals.
\<close>

theorem to_observation_binary_and_counts_pieces:
  "(\<exists>t. ChessBoard_to_observation L cb = Inr t \<and> tensor_dims t 12 8 8 \<and>
        tensor_entries t \<subseteq> {0, 1} \<and>
        tensor_sum t = real (chess_piece_count L (cb_board cb))) \<and>
   (fen_fits_board (pb_current_fen pb) \<longrightarrow>
      (\<exists>t. XiangqiPyffishBoard_to_observation pb = Inr t \<and> tensor_dims t 14 10 9 \<and>
           tensor_entries t \<subseteq> {0, 1} \<and>
           tensor_sum t = real (fen_piece_count (pb_current_fen pb)))) \<and>
   (XiangqiPyffishBoard_to_observation pb = Inr pt \<longrightarrow>
      tensor_dims pt 14 10 9 \<and> tensor_entries pt \<subseteq> {0, 1} \<and>
      tensor_sum pt = real (fen_piece_count (pb_current_fen pb))) \<and>
   (fen_fits_board (sb_current_fen sb) \<longrightarrow>
      (\<exists>t. SimpleXiangqiBoard_get_observation sb = Inr t \<and> tensor_dims t 14 10 9 \<and>
           tensor_entries t \<subseteq> {0, 1} \<and>
           tensor_sum t = real (fen_piece_count (sb_current_fen sb)))) \<and>
   (SimpleXiangqiBoard_get_observation sb = Inr st \<longrightarrow>
      tensor_dims st 14 10 9 \<and> tensor_entries st \<subseteq> {0, 1} \<and>
      tensor_sum st = real (fen_piece_count (sb_current_fen sb))) \<and>
   (grid_ok (xb_board xb) \<longrightarrow>
      (\<exists>t. XiangqiBoard_to_observation xb = Inr t \<and> tensor_dims t 14 10 9 \<and>
           tensor_entries t \<subseteq> {0, 1} \<and>
           tensor_sum t = real (grid_piece_count (xb_board xb)))) \<and>
   grid_ok (xb_board (XiangqiBoard_reset xb)) \<and>
   (cb_board cb = cb_board cb' \<longrightarrow>
      ChessBoard_to_observation L cb = ChessBoard_to_observation L cb') \<and>
   (pb_current_fen pb = pb_current_fen pb' \<longrightarrow>
      XiangqiPyffishBoard_to_observation pb = XiangqiPyffishBoard_to_observation pb') \<and>
   (sb_current_fen sb = sb_current_fen sb' \<longrightarrow>
      SimpleXiangqiBoard_get_observation sb = SimpleXiangqiBoard_get_observation sb') \<and>
   (xb_board xb = xb_board xb' \<longrightarrow>
      XiangqiBoard_to_observation xb = XiangqiBoard_to_observation xb')"
proof -
  have pure:
    "cb_board cb = cb_board cb' \<longrightarrow>
       ChessBoard_to_observation L cb = ChessBoard_to_observation L cb'"
    "pb_current_fen pb = pb_current_fen pb' \<longrightarrow>
       XiangqiPyffishBoard_to_observation pb = XiangqiPyffishBoard_to_observation pb'"
    "sb_current_fen sb = sb_current_fen sb' \<longrightarrow>
       SimpleXiangqiBoard_get_observation sb = SimpleXiangqiBoard_get_observation sb'"
    "xb_board xb = xb_board xb' \<longrightarrow>
       XiangqiBoard_to_observation xb = XiangqiBoard_to_observation xb'"
    by (simp_all add: ChessBoard_to_observation_def XiangqiPyffishBoard_to_observation_def
        SimpleXiangqiBoard_get_observation_def XiangqiBoard_to_observation_def
        del: upt_rec_numeral)
  show ?thesis
    using ChessBoard_to_observation_sum [of L cb]
      XiangqiPyffishBoard_to_observation_total [of pb]
      XiangqiPyffishBoard_to_observation_sum [of pb pt]
      SimpleXiangqiBoard_get_observation_total [of sb]
      SimpleXiangqiBoard_get_observation_sum [of sb st]
      XiangqiBoard_to_observation_sum [of xb]
      reset_grid_ok [of xb] pure
    by blast
qed

theorem to_observation_binary_and_counts_pieces_witness:
  "(\<exists>t. XiangqiPyffishBoard_to_observation
        \<lparr>pb_variant = ''xiangqi'', pb_current_fen = fen_start, pb_move_history = [],
         pb_result = None\<rparr> = Inr t \<and>
       tensor_entries t \<subseteq> {0, 1} \<and> tensor_sum t = 32) \<and>
   (\<exists>t. XiangqiPyffishBoard_to_observation
        \<lparr>pb_variant = ''xiangqi'', pb_current_fen = fen_red_mated,
         pb_move_history = [''b3b1''], pb_result = None\<rparr> = Inr t \<and>
       tensor_entries t \<subseteq> {0, 1} \<and> tensor_sum t = 4) \<and>
   (\<exists>t. SimpleXiangqiBoard_get_observation
        \<lparr>sb_variant = ''xiangqi'', sb_current_fen = fen_after_e4e5,
         sb_move_history = [''e4e5''], sb_result = None\<rparr> = Inr t \<and>
       tensor_entries t \<subseteq> {0, 1} \<and> tensor_sum t = 32) \<and>
   (\<exists>t. XiangqiBoard_to_observation (XiangqiBoard_reset XiangqiBoard_init) = Inr t \<and>
       tensor_entries t \<subseteq> {0, 1} \<and> tensor_sum t = 32)"
proof -
  let ?pb = "\<lparr>pb_variant = ''xiangqi'', pb_current_fen = fen_start, pb_move_history = [],
         pb_result = None\<rparr>"
  let ?pm = "\<lparr>pb_variant = ''xiangqi'', pb_current_fen = fen_red_mated,
         pb_move_history = [''b3b1''], pb_result = None\<rparr>"
  let ?sb = "\<lparr>sb_variant = ''xiangqi'', sb_current_fen = fen_after_e4e5,
         sb_move_history = [''e4e5''], sb_result = None\<rparr>"
  let ?xb = "XiangqiBoard_reset XiangqiBoard_init"
  obtain pt where pt: "XiangqiPyffishBoard_to_observation ?pb = Inr pt"
    using XiangqiPyffishBoard_to_observation_total [of ?pb] stub_fens_fit(1) by auto
  obtain mt where mt: "XiangqiPyffishBoard_to_observation ?pm = Inr mt"
    using XiangqiPyffishBoard_to_observation_total [of ?pm] stub_fens_fit(3) by auto
  obtain st where st: "SimpleXiangqiBoard_get_observation ?sb = Inr st"
    using SimpleXiangqiBoard_get_observation_total [of ?sb] stub_fens_fit(2) by auto
  note i1 = to_observation_binary_and_counts_pieces
      [where L = stub_chess and cb = stub_chess_board and cb' = stub_chess_board
         and pb = ?pb and pt = pt and pb' = ?pb
         and sb = ?sb and st = st and sb' = ?sb and xb = ?xb and xb' = ?xb]
  note i2 = to_observation_binary_and_counts_pieces
      [where L = stub_chess and cb = stub_chess_board and cb' = stub_chess_board
         and pb = ?pm and pt = mt and pb' = ?pm
         and sb = ?sb and st = st and sb' = ?sb and xb = ?xb and xb' = ?xb]
  have g: "grid_ok (xb_board ?xb)" by (rule reset_grid_ok)
  show ?thesis
    using i1 i2 pt mt st g stub_fens_fit stub_fens_count reset_grid_count [of XiangqiBoard_init]
    by auto
qed

end
